theory Spec2Isabelle
  imports Complex_Main "HOL-Library.Multiset"
begin

section \<open>Interval abstract domain (interval.h)\<close>

text \<open>
  Modelled from the spec: the header \<open>type.h\<close>, with the type \<open>Real\<close> and the macros
  \<open>min\<close>, \<open>max\<close>, \<open>round_down\<close> and \<open>round_up\<close>, is not among the sources; the
  functions of \<open>interval.h\<close> that use them are.  \<open>Real\<close> is modelled by the exact reals,
  \<open>min\<close> and \<open>max\<close> by the minimum and the maximum of two numbers.  The rounding-mode
  switches \<open>round_down\<close> and \<open>round_up\<close> only widen a floating-point result, so over
  exact arithmetic they are the identity and leave no trace in the definitions below.

  An interval is the pair of its bounds.  Every operation receives its operands by value and
  writes the result through \<open>r\<close>, so it is a function from the operands to the result.
\<close>

record interval =
  l :: real
  u :: real

definition interval_is_bottom :: "interval \<Rightarrow> bool" where
  "interval_is_bottom x = (l x > u x)"

definition interval_is_lt :: "interval \<Rightarrow> interval \<Rightarrow> bool" where
  "interval_is_lt x y = (u x < l y)"

definition interval_midpoint :: "interval \<Rightarrow> real" where
  "interval_midpoint x = (l x + u x) * (1 / 2)"

definition interval_radius :: "interval \<Rightarrow> real" where
  "interval_radius x = (u x - l x) * (1 / 2)"

definition interval_add :: "interval \<Rightarrow> interval \<Rightarrow> interval" where
  "interval_add x y = \<lparr>l = l x + l y, u = u x + u y\<rparr>"

definition interval_sub :: "interval \<Rightarrow> interval \<Rightarrow> interval" where
  "interval_sub x y = \<lparr>l = l x - l y, u = u x - u y\<rparr>"

definition interval_mul :: "interval \<Rightarrow> interval \<Rightarrow> interval" where
  "interval_mul x y =
    (if (l x = 0 \<and> u x = 0) \<or> (l y = 0 \<and> u y = 0) then \<lparr>l = 0, u = 0\<rparr>
     else if l x \<ge> 0 then
       (if l y \<ge> 0 then \<lparr>l = l x * l y, u = u x * u y\<rparr>
        else if u y \<le> 0 then \<lparr>l = u x * l y, u = l x * u y\<rparr>
        else \<lparr>l = u x * l y, u = u x * u y\<rparr>)
     else if u x \<le> 0 then
       (if l y \<ge> 0 then \<lparr>l = l x * u y, u = u x * l y\<rparr>
        else if u y \<le> 0 then \<lparr>l = u x * u y, u = l x * l y\<rparr>
        else \<lparr>l = l x * u y, u = l x * l y\<rparr>)
     else
       (if l y \<ge> 0 then \<lparr>l = l x * u y, u = u x * u y\<rparr>
        else if u y \<le> 0 then \<lparr>l = u x * l y, u = l x * l y\<rparr>
        else \<lparr>l = min (l x * u y) (u x * l y), u = max (l x * l y) (u x * u y)\<rparr>))"

definition interval_exp :: "interval \<Rightarrow> interval" where
  "interval_exp x = \<lparr>l = exp (l x), u = exp (u x)\<rparr>"

definition interval_scale :: "interval \<Rightarrow> real \<Rightarrow> interval" where
  "interval_scale x s =
    (if s \<ge> 0 then \<lparr>l = s * l x, u = s * u x\<rparr> else \<lparr>l = s * u x, u = s * l x\<rparr>)"

definition interval_fma :: "real \<Rightarrow> interval \<Rightarrow> interval \<Rightarrow> interval" where
  "interval_fma alpha x y =
    (if alpha \<ge> 0 then \<lparr>l = alpha * l x + l y, u = alpha * u x + u y\<rparr>
     else \<lparr>l = alpha * u x + l y, u = alpha * l x + u y\<rparr>)"

definition interval_glb :: "interval \<Rightarrow> interval \<Rightarrow> interval" where
  "interval_glb x y =
    \<lparr>l = (if l x > l y then l x else l y), u = (if u x < u y then u x else u y)\<rparr>"

definition interval_lub :: "interval \<Rightarrow> interval \<Rightarrow> interval" where
  "interval_lub x y =
    \<lparr>l = (if l x < l y then l x else l y), u = (if u x > u y then u x else u y)\<rparr>"

text \<open>Concretisation: the points an interval stands for.\<close>

definition in_interval :: "real \<Rightarrow> interval \<Rightarrow> bool" where
  "in_interval a x = (l x \<le> a \<and> a \<le> u x)"

section \<open>Soundness of the interval operations\<close>

lemma interval_add_sound:
  "in_interval a x \<Longrightarrow> in_interval b y \<Longrightarrow> in_interval (a + b) (interval_add x y)"
  by (simp add: in_interval_def interval_add_def)

lemma interval_exp_sound:
  "in_interval a x \<Longrightarrow> in_interval (exp a) (interval_exp x)"
  by (simp add: in_interval_def interval_exp_def)

lemma interval_scale_sound:
  "in_interval a x \<Longrightarrow> in_interval (s * a) (interval_scale x s)"
  by (auto simp: in_interval_def interval_scale_def mult_left_mono mult_left_mono_neg)

lemma interval_fma_sound:
  "in_interval a x \<Longrightarrow> in_interval b y \<Longrightarrow>
   in_interval (alpha * a + b) (interval_fma alpha x y)"
  by (auto simp: in_interval_def interval_fma_def add_mono mult_left_mono mult_left_mono_neg)

lemma mul_bounds:
  fixes a b :: real
  assumes "xl \<le> a" "a \<le> xu" "yl \<le> b" "b \<le> yu"
  shows "min (min (xl * yl) (xl * yu)) (min (xu * yl) (xu * yu)) \<le> a * b"
    and "a * b \<le> max (max (xl * yl) (xl * yu)) (max (xu * yl) (xu * yu))"
proof -
  have 1: "a * b \<le> max (a * yl) (a * yu)" "min (a * yl) (a * yu) \<le> a * b"
    using assms by (cases "0 \<le> a"; simp add: le_max_iff_disj min_le_iff_disj mult_left_mono mult_left_mono_neg)+
  have 2: "a * y \<le> max (xl * y) (xu * y)" "min (xl * y) (xu * y) \<le> a * y" for y
    using assms by (cases "0 \<le> y"; simp add: le_max_iff_disj min_le_iff_disj mult_right_mono mult_right_mono_neg)+
  show "min (min (xl * yl) (xl * yu)) (min (xu * yl) (xu * yu)) \<le> a * b"
    using 1(2) 2(2) [of yl] 2(2) [of yu] by (auto simp: min_le_iff_disj)
  show "a * b \<le> max (max (xl * yl) (xl * yu)) (max (xu * yl) (xu * yu))"
    using 1(1) 2(1) [of yl] 2(1) [of yu] by (auto simp: le_max_iff_disj)
qed

lemma interval_mul_sound:
  assumes "in_interval a x" and "in_interval b y"
  shows "in_interval (a * b) (interval_mul x y)"
proof -
  define xl xu yl yu where "xl = l x" and "xu = u x" and "yl = l y" and "yu = u y"
  note d = xl_def [symmetric] xu_def [symmetric] yl_def [symmetric] yu_def [symmetric]
  from assms have ab: "xl \<le> a" "a \<le> xu" "yl \<le> b" "b \<le> yu"
    by (simp_all add: in_interval_def xl_def xu_def yl_def yu_def)
  have goal: "in_interval (a * b) (interval_mul x y)"
    if "\<not> ((xl = 0 \<and> xu = 0) \<or> (yl = 0 \<and> yu = 0))"
      and "interval_mul x y = \<lparr>l = lo, u = hi\<rparr>" and "lo \<le> a * b" and "a * b \<le> hi" for lo hi
    using that by (simp add: in_interval_def)
  consider (z) "(xl = 0 \<and> xu = 0) \<or> (yl = 0 \<and> yu = 0)"
    | (pp) "\<not> ((xl = 0 \<and> xu = 0) \<or> (yl = 0 \<and> yu = 0))" "0 \<le> xl" "0 \<le> yl"
    | (pn) "\<not> ((xl = 0 \<and> xu = 0) \<or> (yl = 0 \<and> yu = 0))" "0 \<le> xl" "\<not> 0 \<le> yl \<and> yu \<le> 0"
    | (pm) "\<not> ((xl = 0 \<and> xu = 0) \<or> (yl = 0 \<and> yu = 0))" "0 \<le> xl" "\<not> 0 \<le> yl \<and> \<not> yu \<le> 0"
    | (np) "\<not> ((xl = 0 \<and> xu = 0) \<or> (yl = 0 \<and> yu = 0))" "\<not> 0 \<le> xl \<and> xu \<le> 0" "0 \<le> yl"
    | (nn) "\<not> ((xl = 0 \<and> xu = 0) \<or> (yl = 0 \<and> yu = 0))" "\<not> 0 \<le> xl \<and> xu \<le> 0" "\<not> 0 \<le> yl \<and> yu \<le> 0"
    | (nm) "\<not> ((xl = 0 \<and> xu = 0) \<or> (yl = 0 \<and> yu = 0))" "\<not> 0 \<le> xl \<and> xu \<le> 0" "\<not> 0 \<le> yl \<and> \<not> yu \<le> 0"
    | (mp) "\<not> ((xl = 0 \<and> xu = 0) \<or> (yl = 0 \<and> yu = 0))" "\<not> 0 \<le> xl \<and> \<not> xu \<le> 0" "0 \<le> yl"
    | (mn) "\<not> ((xl = 0 \<and> xu = 0) \<or> (yl = 0 \<and> yu = 0))" "\<not> 0 \<le> xl \<and> \<not> xu \<le> 0" "\<not> 0 \<le> yl \<and> yu \<le> 0"
    | (mm) "\<not> ((xl = 0 \<and> xu = 0) \<or> (yl = 0 \<and> yu = 0))" "\<not> 0 \<le> xl \<and> \<not> xu \<le> 0" "\<not> 0 \<le> yl \<and> \<not> yu \<le> 0"
    by argo
  then show ?thesis
  proof cases
    case z
    with ab have "a * b = 0" by auto
    with z show ?thesis by (auto simp: interval_mul_def in_interval_def d)
  next
    case pp
    then have v: "interval_mul x y = \<lparr>l = xl * yl, u = xu * yu\<rparr>"
      by (simp add: interval_mul_def d)
    have lo: "xl * yl \<le> a * b"
      by (rule order_trans [OF mult_left_mono mult_right_mono]) (use ab pp in simp_all)
    have hi: "a * b \<le> xu * yu"
      by (rule order_trans [OF mult_right_mono mult_left_mono]) (use ab pp in simp_all)
    from pp(1) v lo hi show ?thesis by (rule goal)
  next
    case pn
    then have v: "interval_mul x y = \<lparr>l = xu * yl, u = xl * yu\<rparr>"
      by (simp add: interval_mul_def d)
    have lo: "xu * yl \<le> a * b"
      by (rule order_trans [OF mult_left_mono mult_right_mono_neg]) (use ab pn in simp_all)
    have hi: "a * b \<le> xl * yu"
      by (rule order_trans [OF mult_right_mono_neg mult_left_mono]) (use ab pn in simp_all)
    from pn(1) v lo hi show ?thesis by (rule goal)
  next
    case pm
    then have v: "interval_mul x y = \<lparr>l = xu * yl, u = xu * yu\<rparr>"
      by (simp add: interval_mul_def d)
    have lo: "xu * yl \<le> a * b"
      by (rule order_trans [OF mult_right_mono_neg mult_left_mono]) (use ab pm in simp_all)
    have hi: "a * b \<le> xu * yu"
      by (rule order_trans [OF mult_left_mono mult_right_mono]) (use ab pm in simp_all)
    from pm(1) v lo hi show ?thesis by (rule goal)
  next
    case np
    then have v: "interval_mul x y = \<lparr>l = xl * yu, u = xu * yl\<rparr>"
      by (simp add: interval_mul_def d)
    have lo: "xl * yu \<le> a * b"
      by (rule order_trans [OF mult_left_mono_neg mult_right_mono]) (use ab np in simp_all)
    have hi: "a * b \<le> xu * yl"
      by (rule order_trans [OF mult_right_mono mult_left_mono_neg]) (use ab np in simp_all)
    from np(1) v lo hi show ?thesis by (rule goal)
  next
    case nn
    then have v: "interval_mul x y = \<lparr>l = xu * yu, u = xl * yl\<rparr>"
      by (simp add: interval_mul_def d)
    have lo: "xu * yu \<le> a * b"
      by (rule order_trans [OF mult_left_mono_neg mult_right_mono_neg]) (use ab nn in simp_all)
    have hi: "a * b \<le> xl * yl"
      by (rule order_trans [OF mult_right_mono_neg mult_left_mono_neg]) (use ab nn in simp_all)
    from nn(1) v lo hi show ?thesis by (rule goal)
  next
    case nm
    then have v: "interval_mul x y = \<lparr>l = xl * yu, u = xl * yl\<rparr>"
      by (simp add: interval_mul_def d)
    have lo: "xl * yu \<le> a * b"
      by (rule order_trans [OF mult_right_mono mult_left_mono_neg]) (use ab nm in simp_all)
    have hi: "a * b \<le> xl * yl"
      by (rule order_trans [OF mult_left_mono_neg mult_right_mono_neg]) (use ab nm in simp_all)
    from nm(1) v lo hi show ?thesis by (rule goal)
  next
    case mp
    then have v: "interval_mul x y = \<lparr>l = xl * yu, u = xu * yu\<rparr>"
      by (simp add: interval_mul_def d)
    have lo: "xl * yu \<le> a * b"
      by (rule order_trans [OF mult_left_mono_neg mult_right_mono]) (use ab mp in simp_all)
    have hi: "a * b \<le> xu * yu"
      by (rule order_trans [OF mult_right_mono mult_left_mono]) (use ab mp in simp_all)
    from mp(1) v lo hi show ?thesis by (rule goal)
  next
    case mn
    then have v: "interval_mul x y = \<lparr>l = xu * yl, u = xl * yl\<rparr>"
      by (simp add: interval_mul_def d)
    have lo: "xu * yl \<le> a * b"
      by (rule order_trans [OF mult_left_mono mult_right_mono_neg]) (use ab mn in simp_all)
    have hi: "a * b \<le> xl * yl"
      by (rule order_trans [OF mult_right_mono_neg mult_left_mono_neg]) (use ab mn in simp_all)
    from mn(1) v lo hi show ?thesis by (rule goal)
  next
    case mm
    then have v: "interval_mul x y = \<lparr>l = min (xl * yu) (xu * yl), u = max (xl * yl) (xu * yu)\<rparr>"
      by (simp add: interval_mul_def d)
    from mm have s: "xl * yu \<le> 0" "xu * yl \<le> 0" "0 \<le> xl * yl" "0 \<le> xu * yu"
      by (simp_all add: mult_nonpos_nonneg mult_nonneg_nonpos mult_nonpos_nonpos mult_nonneg_nonneg)
    have lo: "min (xl * yu) (xu * yl) \<le> a * b"
      using mul_bounds(1) [OF ab] s by (simp add: min_def split: if_splits)
    have hi: "a * b \<le> max (xl * yl) (xu * yu)"
      using mul_bounds(2) [OF ab] s by (simp add: max_def split: if_splits)
    from mm(1) v lo hi show ?thesis by (rule goal)
  qed
qed

text \<open>
  Claim C3 (interval-arithmetic soundness) fails for the subtraction: \<open>interval_sub\<close>
  subtracts lower bound from lower bound and upper bound from upper bound.  For the non-bottom
  operands \<open>x = [0, 0]\<close> and \<open>y = [0, 1]\<close> the points \<open>0 \<in> x\<close> and \<open>1 \<in> y\<close>
  have the exact difference \<open>-1\<close>, and the computed interval \<open>[0, -1]\<close> does not contain it.
  The addition, the multiplication, the exponential, the scaling and the fused multiply-add
  contain the exact result, by the lemmas above.
\<close>

theorem interval_sub_excludes_exact_difference:
  "\<not> interval_is_bottom \<lparr>l = 0, u = 0\<rparr> \<and> \<not> interval_is_bottom \<lparr>l = 0, u = 1\<rparr> \<and>
   in_interval 0 \<lparr>l = 0, u = 0\<rparr> \<and> in_interval 1 \<lparr>l = 0, u = 1\<rparr> \<and>
   interval_sub \<lparr>l = 0, u = 0\<rparr> \<lparr>l = 0, u = 1\<rparr> = \<lparr>l = 0, u = - 1\<rparr> \<and>
   \<not> in_interval (0 - 1) (interval_sub \<lparr>l = 0, u = 0\<rparr> \<lparr>l = 0, u = 1\<rparr>)"
  by (simp add: interval_is_bottom_def in_interval_def interval_sub_def)


section \<open>Hyperrectangle abstract domain (hyperrectangle.h)\<close>

text \<open>
  A hyperrectangle is the array of its intervals; the field \<open>n\<close> is the length of the
  array.  The binary operations loop over \<open>i < x->n\<close> and store into \<open>r->intervals[i]\<close>;
  the result array \<open>r\<close> is an argument, returned updated.  Iteration \<open>i\<close> reads only
  index \<open>i\<close> of the operands and writes index \<open>i\<close> (and, in \<open>hyperrectangle_glb\<close>,
  index \<open>0\<close>, which has been read before) of the result, so a result that shares its array
  with an operand gives the same values.
\<close>

type_synonym hyperrectangle = "interval list"


definition hyperrectangle_midpoint :: "hyperrectangle \<Rightarrow> real list" where
  "hyperrectangle_midpoint x = map interval_midpoint x"

definition hyperrectangle_volume :: "hyperrectangle \<Rightarrow> real" where
  "hyperrectangle_volume x = fold (\<lambda>i volume. volume * interval_radius (x ! i)) [0..<length x] 1"

definition hyperrectangle_add :: "hyperrectangle \<Rightarrow> hyperrectangle \<Rightarrow> hyperrectangle \<Rightarrow> hyperrectangle" where
  "hyperrectangle_add r x y = fold (\<lambda>i r. r[i := interval_add (x ! i) (y ! i)]) [0..<length x] r"

definition hyperrectangle_sub :: "hyperrectangle \<Rightarrow> hyperrectangle \<Rightarrow> hyperrectangle \<Rightarrow> hyperrectangle" where
  "hyperrectangle_sub r x y = fold (\<lambda>i r. r[i := interval_sub (x ! i) (y ! i)]) [0..<length x] r"

definition hyperrectangle_mul :: "hyperrectangle \<Rightarrow> hyperrectangle \<Rightarrow> hyperrectangle \<Rightarrow> hyperrectangle" where
  "hyperrectangle_mul r x y = fold (\<lambda>i r. r[i := interval_mul (x ! i) (y ! i)]) [0..<length x] r"

definition hyperrectangle_lub :: "hyperrectangle \<Rightarrow> hyperrectangle \<Rightarrow> hyperrectangle \<Rightarrow> hyperrectangle" where
  "hyperrectangle_lub r x y = fold (\<lambda>i r. r[i := interval_lub (x ! i) (y ! i)]) [0..<length x] r"

definition glb_step :: "hyperrectangle \<Rightarrow> hyperrectangle \<Rightarrow> nat \<Rightarrow> hyperrectangle \<Rightarrow> hyperrectangle" where
  "glb_step x y i r =
    (let r1 = r[i := interval_glb (x ! i) (y ! i)]
     in if interval_is_bottom (r1 ! i) then r1[0 := \<lparr>l = 1, u = - 1\<rparr>] else r1)"

definition hyperrectangle_glb :: "hyperrectangle \<Rightarrow> hyperrectangle \<Rightarrow> hyperrectangle \<Rightarrow> hyperrectangle" where
  "hyperrectangle_glb r x y = fold (glb_step x y) [0..<length x] r"

text \<open>Membership of a point in a hyperrectangle, component by component.\<close>

definition in_hyperrectangle :: "real list \<Rightarrow> hyperrectangle \<Rightarrow> bool" where
  "in_hyperrectangle p x = list_all2 in_interval p x"

definition some_bottom :: "hyperrectangle \<Rightarrow> hyperrectangle \<Rightarrow> nat \<Rightarrow> bool" where
  "some_bottom x y n = (\<exists>j<n. interval_is_bottom (interval_glb (x ! j) (y ! j)))"

section \<open>The binary operations on hyperrectangles, index by index\<close>

lemma fold_update_length: "length (fold (\<lambda>j r. r[j := f j]) [0..<n] r) = length r"
  by (induction n) auto

lemma fold_update_nth:
  "i < n \<Longrightarrow> n \<le> length r \<Longrightarrow> fold (\<lambda>j r. r[j := f j]) [0..<n] r ! i = f i"
proof (induction n)
  case 0
  then show ?case by simp
next
  case (Suc n)
  show ?case
  proof (cases "i = n")
    case True
    with Suc.prems show ?thesis by (simp add: fold_update_length)
  next
    case False
    with Suc show ?thesis by (simp add: fold_update_length)
  qed
qed

lemma glb_step_length: "length (glb_step x y i r) = length r"
  by (simp add: glb_step_def Let_def)

lemma fold_glb_length: "length (fold (glb_step x y) [0..<n] r) = length r"
  by (induction n) (auto simp: glb_step_length)

lemma some_bottom_Suc:
  "some_bottom x y (Suc n) = (some_bottom x y n \<or> interval_is_bottom (interval_glb (x ! n) (y ! n)))"
  by (auto simp: some_bottom_def less_Suc_eq)

lemma glb_step_nth:
  "n < length r \<Longrightarrow> i < length r \<Longrightarrow>
   glb_step x y n r ! i =
     (if i = 0 \<and> interval_is_bottom (interval_glb (x ! n) (y ! n)) then \<lparr>l = 1, u = - 1\<rparr>
      else if i = n then interval_glb (x ! n) (y ! n) else r ! i)"
  by (auto simp: glb_step_def Let_def)

lemma fold_glb_nth:
  "i < n \<Longrightarrow> n \<le> length r \<Longrightarrow>
   fold (glb_step x y) [0..<n] r ! i =
     (if i = 0 \<and> some_bottom x y n then \<lparr>l = 1, u = - 1\<rparr> else interval_glb (x ! i) (y ! i))"
proof (induction n arbitrary: i)
  case 0
  then show ?case by simp
next
  case (Suc n)
  let ?r = "fold (glb_step x y) [0..<n] r"
  have len: "length ?r = length r" by (rule fold_glb_length)
  have n: "n < length ?r" and i: "i < length ?r" using Suc.prems len by simp_all
  have step: "fold (glb_step x y) [0..<Suc n] r ! i = glb_step x y n ?r ! i" by simp
  show ?case
  proof (cases "i = n")
    case True
    then show ?thesis unfolding step glb_step_nth [OF n i]
      by (auto simp: some_bottom_Suc some_bottom_def)
  next
    case False
    then have "i < n" using Suc.prems by simp
    then have IH: "?r ! i = (if i = 0 \<and> some_bottom x y n then \<lparr>l = 1, u = - 1\<rparr> else interval_glb (x ! i) (y ! i))"
      using Suc by simp
    show ?thesis unfolding step glb_step_nth [OF n i] using False IH
      by (auto simp: some_bottom_Suc)
  qed
qed

text \<open>
  Claim C8, as amended.  For operands and result of the same dimension \<open>n\<close>, addition,
  subtraction, multiplication and least upper bound give at every index \<open>i < n\<close> the
  interval operation on the components.  \<open>hyperrectangle_glb\<close> gives the component-wise
  greatest lower bound at every index, except that index \<open>0\<close> holds the canonical bottom
  \<open>[1, -1]\<close> as soon as some component intersection is empty.
\<close>

theorem hyperrectangle_binary_componentwise:
  assumes "length x = n" and "length y = n" and "length r = n" and "i < n"
  shows "hyperrectangle_add r x y ! i = interval_add (x ! i) (y ! i) \<and>
         hyperrectangle_sub r x y ! i = interval_sub (x ! i) (y ! i) \<and>
         hyperrectangle_mul r x y ! i = interval_mul (x ! i) (y ! i) \<and>
         hyperrectangle_lub r x y ! i = interval_lub (x ! i) (y ! i) \<and>
         hyperrectangle_glb r x y ! i =
           (if i = 0 \<and> (\<exists>j<n. interval_is_bottom (interval_glb (x ! j) (y ! j)))
            then \<lparr>l = 1, u = - 1\<rparr> else interval_glb (x ! i) (y ! i))"
  using assms fold_glb_nth [of i n r x y]
  by (simp add: hyperrectangle_add_def hyperrectangle_sub_def hyperrectangle_mul_def
      hyperrectangle_lub_def hyperrectangle_glb_def fold_update_nth some_bottom_def)

text \<open>
  Witness for claim C8: two boxes of dimension 2 whose second components do not meet.
\<close>

theorem hyperrectangle_binary_componentwise_witness:
  "hyperrectangle_add [\<lparr>l = 5, u = 6\<rparr>, \<lparr>l = 5, u = 6\<rparr>] [\<lparr>l = 0, u = 1\<rparr>, \<lparr>l = 0, u = 1\<rparr>]
      [\<lparr>l = 0, u = 1\<rparr>, \<lparr>l = 2, u = 3\<rparr>] ! 0 = \<lparr>l = 0, u = 2\<rparr> \<and>
   hyperrectangle_glb [\<lparr>l = 5, u = 6\<rparr>, \<lparr>l = 5, u = 6\<rparr>] [\<lparr>l = 0, u = 1\<rparr>, \<lparr>l = 0, u = 1\<rparr>]
      [\<lparr>l = 0, u = 1\<rparr>, \<lparr>l = 2, u = 3\<rparr>] ! 0 = \<lparr>l = 1, u = - 1\<rparr>"
proof -
  let ?x = "[\<lparr>l = 0, u = 1\<rparr>, \<lparr>l = 0, u = 1\<rparr>]"
  let ?y = "[\<lparr>l = 0, u = 1\<rparr>, \<lparr>l = 2, u = 3\<rparr>]"
  let ?r = "[\<lparr>l = 5, u = 6\<rparr>, \<lparr>l = 5, u = 6\<rparr>]"
  have "interval_is_bottom (interval_glb (?x ! 1) (?y ! 1))"
    by (simp add: interval_glb_def interval_is_bottom_def)
  then have ex: "\<exists>j<2. interval_is_bottom (interval_glb (?x ! j) (?y ! j))"
    by (intro exI [of _ 1]) simp
  have "length ?x = 2" and "length ?y = 2" and "length ?r = 2" and "(0::nat) < 2"
    by simp_all
  from hyperrectangle_binary_componentwise [OF this] ex show ?thesis
    by (simp add: interval_add_def)
qed

text \<open>
  Counterexample to claim C8 as stated: the second components \<open>[0, 1]\<close> and \<open>[2, 3]\<close>
  have an empty intersection, and index \<open>0\<close> of the result is \<open>[1, -1]\<close>, not the
  greatest lower bound \<open>[0, 1]\<close> of the first components.
\<close>

theorem hyperrectangle_glb_not_componentwise:
  "hyperrectangle_glb [\<lparr>l = 5, u = 6\<rparr>, \<lparr>l = 5, u = 6\<rparr>] [\<lparr>l = 0, u = 1\<rparr>, \<lparr>l = 0, u = 1\<rparr>]
      [\<lparr>l = 0, u = 1\<rparr>, \<lparr>l = 2, u = 3\<rparr>] ! 0
   \<noteq> interval_glb ([\<lparr>l = 0, u = 1\<rparr>, \<lparr>l = 0, u = 1\<rparr>] ! 0) ([\<lparr>l = 0, u = 1\<rparr>, \<lparr>l = 2, u = 3\<rparr>] ! 0)"
  by (simp add: hyperrectangle_glb_def glb_step_def interval_glb_def interval_is_bottom_def Let_def)


section \<open>Decision trees (decision_tree.c, binary_tree.c)\<close>

text \<open>
  A node of a decision tree carries an identifier and one of three payloads: a leaf with the
  number of samples per label, a leaf with logarithmic scores and a weight, or a univariate
  linear split \<open>x\<^sub>i \<le> k\<close> with its two children.  The fields \<open>n_samples\<close> and
  \<open>max_score\<close> of a leaf are written once, by \<open>decision_tree_leaf_create\<close>, from the
  scores; they are the functions \<open>leaf_n_samples\<close> and \<open>leaf_max_score\<close> of the scores.
\<close>

datatype tree =
    Leaf nat "nat list"
  | LeafLog nat "real list" real
  | Split nat nat real tree tree

definition leaf_n_samples :: "nat list \<Rightarrow> nat" where
  "leaf_n_samples scores = fold (\<lambda>s n_samples. n_samples + s) (tl scores) (hd scores)"

definition leaf_max_score :: "nat list \<Rightarrow> nat" where
  "leaf_max_score scores =
     fold (\<lambda>s max_score. if s > max_score then s else max_score) (tl scores) (hd scores)"

text \<open>
  A \<open>DecisionTreeNode\<close> of the source is a pointer to a node that knows its parent and its
  children.  The model of such a pointer is the subtree at the node together with the way up:
  for every ancestor, nearest first, the side on which the path leaves it and the ancestor
  itself.  Two pointers into the same tree are equal exactly when these values are equal.
\<close>

datatype side = LeftSide | RightSide

datatype DecisionTreeNode = NodeAt tree "(side \<times> tree) list"

fun node_tree :: "DecisionTreeNode \<Rightarrow> tree" where
  "node_tree (NodeAt t up) = t"

fun node_up :: "DecisionTreeNode \<Rightarrow> (side \<times> tree) list" where
  "node_up (NodeAt t up) = up"

fun decision_tree_node_is_leaf :: "DecisionTreeNode \<Rightarrow> bool" where
  "decision_tree_node_is_leaf (NodeAt (Split ident i k lt rt) up) = False"
| "decision_tree_node_is_leaf (NodeAt t up) = True"

fun decision_tree_node_is_root :: "DecisionTreeNode \<Rightarrow> bool" where
  "decision_tree_node_is_root (NodeAt t up) = (up = [])"

fun decision_tree_node_get_parent :: "DecisionTreeNode \<Rightarrow> DecisionTreeNode" where
  "decision_tree_node_get_parent (NodeAt t ((s, p) # up)) = NodeAt p up"

fun binary_tree_node_get_depth :: "DecisionTreeNode \<Rightarrow> nat" where
  "binary_tree_node_get_depth (NodeAt t up) = length up"

fun decision_tree_univariate_linear_split_get_index :: "DecisionTreeNode \<Rightarrow> nat" where
  "decision_tree_univariate_linear_split_get_index (NodeAt (Split ident i k lt rt) up) = i"

fun decision_tree_univariate_linear_split_get_threshold :: "DecisionTreeNode \<Rightarrow> real" where
  "decision_tree_univariate_linear_split_get_threshold (NodeAt (Split ident i k lt rt) up) = k"

fun decision_tree_univariate_linear_split_get_left_child :: "DecisionTreeNode \<Rightarrow> DecisionTreeNode" where
  "decision_tree_univariate_linear_split_get_left_child (NodeAt (Split ident i k lt rt) up) =
     NodeAt lt ((LeftSide, Split ident i k lt rt) # up)"

fun decision_tree_univariate_linear_split_get_right_child :: "DecisionTreeNode \<Rightarrow> DecisionTreeNode" where
  "decision_tree_univariate_linear_split_get_right_child (NodeAt (Split ident i k lt rt) up) =
     NodeAt rt ((RightSide, Split ident i k lt rt) # up)"

record decision_tree =
  root_node :: tree
  space_size :: nat
  tree_labels :: "string list"
  tree_n_labels :: nat

definition decision_tree_get_root :: "decision_tree \<Rightarrow> DecisionTreeNode" where
  "decision_tree_get_root T = NodeAt (root_node T) []"

text \<open>Number of nodes of a subtree: the measure of the loops that walk a tree.\<close>

fun n_nodes :: "tree \<Rightarrow> nat" where
  "n_nodes (Split ident i k lt rt) = Suc (n_nodes lt + n_nodes rt)"
| "n_nodes t = Suc 0"

text \<open>
  The descent of \<open>decision_tree_compute_decision_function\<close>: from a node, go to the left
  child when \<open>x[i] \<le> k\<close> and to the right child otherwise, until a leaf is reached.
\<close>

function tree_walk :: "DecisionTreeNode \<Rightarrow> real list \<Rightarrow> DecisionTreeNode" where
  "tree_walk N x =
     (if decision_tree_node_is_leaf N then N
      else tree_walk
        (if x ! decision_tree_univariate_linear_split_get_index N
              \<le> decision_tree_univariate_linear_split_get_threshold N
         then decision_tree_univariate_linear_split_get_left_child N
         else decision_tree_univariate_linear_split_get_right_child N) x)"
  by pat_completeness auto
termination
proof (relation "measure (\<lambda>(N, x). n_nodes (node_tree N))")
  show "wf (measure (\<lambda>(N, x). n_nodes (node_tree N)))" by simp
next
  fix N :: DecisionTreeNode and x :: "real list"
  assume "\<not> decision_tree_node_is_leaf N"
  then obtain ident i k lt rt up where N: "N = NodeAt (Split ident i k lt rt) up"
    by (cases N rule: decision_tree_node_is_leaf.cases) auto
  show "((if x ! decision_tree_univariate_linear_split_get_index N
              \<le> decision_tree_univariate_linear_split_get_threshold N
         then decision_tree_univariate_linear_split_get_left_child N
         else decision_tree_univariate_linear_split_get_right_child N, x), (N, x))
        \<in> measure (\<lambda>(N, x). n_nodes (node_tree N))"
    by (simp add: N)
qed

declare tree_walk.simps [simp del]

section \<open>Reachable leaves of a tree in a hyperrectangle (forest_hyperrectangle.c)\<close>

text \<open>
  \<open>reachable_leaves\<close> is a depth-first visit with an explicit stack \<open>S\<close> (its top is the
  head of the list) that appends every leaf it pops to the array \<open>L\<close>.  At a split it pushes
  the left child when \<open>intervals[i].l \<le> k\<close> and then the right child when
  \<open>intervals[i].u > k\<close>; both tests read the hyperrectangle that was passed in.  The arrays
  \<open>S\<close> and \<open>L\<close> of the source have room for \<open>1024 * 1024\<close> pointers each.
\<close>

definition push_children :: "hyperrectangle \<Rightarrow> DecisionTreeNode \<Rightarrow> DecisionTreeNode list \<Rightarrow> DecisionTreeNode list" where
  "push_children x n S =
     (let i = decision_tree_univariate_linear_split_get_index n;
          k = decision_tree_univariate_linear_split_get_threshold n;
          S1 = (if l (x ! i) \<le> k then decision_tree_univariate_linear_split_get_left_child n # S else S)
      in (if u (x ! i) > k then decision_tree_univariate_linear_split_get_right_child n # S1 else S1))"

lemma push_children_measure:
  "\<not> decision_tree_node_is_leaf n \<Longrightarrow>
   sum_list (map (\<lambda>m. n_nodes (node_tree m)) (push_children x n S))
     < sum_list (map (\<lambda>m. n_nodes (node_tree m)) (n # S))"
  by (cases n rule: decision_tree_node_is_leaf.cases) (auto simp: push_children_def Let_def)

function reachable_leaves_loop :: "hyperrectangle \<Rightarrow> DecisionTreeNode list \<Rightarrow> DecisionTreeNode list \<Rightarrow> DecisionTreeNode list" where
  "reachable_leaves_loop x [] L = L"
| "reachable_leaves_loop x (n # S) L =
     (if decision_tree_node_is_leaf n then reachable_leaves_loop x S (L @ [n])
      else reachable_leaves_loop x (push_children x n S) L)"
  by pat_completeness auto
termination
proof (relation "measure (\<lambda>(x, S, L). sum_list (map (\<lambda>m. n_nodes (node_tree m)) S))")
  show "wf (measure (\<lambda>(x, S, L). sum_list (map (\<lambda>m. n_nodes (node_tree m)) S)))" by simp
next
  fix x :: hyperrectangle and n S and L :: "DecisionTreeNode list"
  assume "decision_tree_node_is_leaf n"
  have "0 < n_nodes (node_tree n)" by (cases "node_tree n") auto
  then show "((x, S, L @ [n]), (x, n # S, L))
      \<in> measure (\<lambda>(x, S, L). sum_list (map (\<lambda>m. n_nodes (node_tree m)) S))"
    by simp
next
  fix x :: hyperrectangle and n S and L :: "DecisionTreeNode list"
  assume "\<not> decision_tree_node_is_leaf n"
  from push_children_measure [OF this]
  show "((x, push_children x n S, L), (x, n # S, L))
      \<in> measure (\<lambda>(x, S, L). sum_list (map (\<lambda>m. n_nodes (node_tree m)) S))"
    by simp
qed

definition reachable_leaves :: "decision_tree \<Rightarrow> hyperrectangle \<Rightarrow> DecisionTreeNode list" where
  "reachable_leaves T x = reachable_leaves_loop x [decision_tree_get_root T] []"

text \<open>Every split of the subtree tests a feature of the space: \<open>i < n\<close>.\<close>

fun indices_below :: "nat \<Rightarrow> tree \<Rightarrow> bool" where
  "indices_below n (Split ident i k lt rt) = (i < n \<and> indices_below n lt \<and> indices_below n rt)"
| "indices_below n t = True"



text \<open>
  The leaves below a node whose guards, taken one at a time, are satisfiable in the
  hyperrectangle: what the visit collects from one stack entry.
\<close>

fun guarded_leaves :: "hyperrectangle \<Rightarrow> tree \<Rightarrow> (side \<times> tree) list \<Rightarrow> DecisionTreeNode set" where
  "guarded_leaves x (Split ident i k lt rt) up =
     (if l (x ! i) \<le> k then guarded_leaves x lt ((LeftSide, Split ident i k lt rt) # up) else {}) \<union>
     (if u (x ! i) > k then guarded_leaves x rt ((RightSide, Split ident i k lt rt) # up) else {})"
| "guarded_leaves x t up = {NodeAt t up}"

lemma tree_walk_leaf [simp]:
  "tree_walk (NodeAt (Leaf ident scores) up) p = NodeAt (Leaf ident scores) up"
  "tree_walk (NodeAt (LeafLog ident lscores w) up) p = NodeAt (LeafLog ident lscores w) up"
  by (simp_all add: tree_walk.simps)

lemma tree_walk_split [simp]:
  "tree_walk (NodeAt (Split ident i k lt rt) up) p =
     (if p ! i \<le> k then tree_walk (NodeAt lt ((LeftSide, Split ident i k lt rt) # up)) p
      else tree_walk (NodeAt rt ((RightSide, Split ident i k lt rt) # up)) p)"
  by (subst tree_walk.simps) simp

lemma guarded_leaves_of_node:
  "guarded_leaves x (node_tree n) (node_up n) =
     (if decision_tree_node_is_leaf n then {n}
      else \<Union>m \<in> set (push_children x n []). guarded_leaves x (node_tree m) (node_up m))"
  by (cases n rule: decision_tree_node_is_leaf.cases) (auto simp: push_children_def Let_def)

lemma push_children_append: "push_children x n S = push_children x n [] @ S"
  by (simp add: push_children_def Let_def)

lemma reachable_leaves_loop_set:
  "set (reachable_leaves_loop x S L) =
     set L \<union> (\<Union>m \<in> set S. guarded_leaves x (node_tree m) (node_up m))"
proof (induction x S L rule: reachable_leaves_loop.induct)
  case (1 x L)
  then show ?case by simp
next
  case (2 x n S L)
  show ?case
  proof (cases "decision_tree_node_is_leaf n")
    case True
    with 2 show ?thesis by (auto simp: guarded_leaves_of_node [of x n])
  next
    case False
    have "set (push_children x n S) = set (push_children x n []) \<union> set S"
      by (subst push_children_append) simp
    with False 2 show ?thesis by (auto simp: guarded_leaves_of_node [of x n])
  qed
qed

lemma reachable_leaves_set:
  "set (reachable_leaves T x) = guarded_leaves x (root_node T) []"
  by (simp add: reachable_leaves_def reachable_leaves_loop_set decision_tree_get_root_def
      del: reachable_leaves_loop.simps)

lemma tree_walk_guarded:
  "indices_below (length x) t \<Longrightarrow> in_hyperrectangle p x \<Longrightarrow>
   tree_walk (NodeAt t up) p \<in> guarded_leaves x t up"
proof (induction t arbitrary: up)
  case (Split ident i k lt rt)
  from Split.prems have i: "i < length x" by simp
  with Split.prems have "l (x ! i) \<le> p ! i" and "p ! i \<le> u (x ! i)"
    by (auto simp: in_hyperrectangle_def list_all2_conv_all_nth in_interval_def)
  with Split show ?case by auto
qed simp_all



section \<open>Examples of trees\<close>





text \<open>The decision stump \<open>x\<^sub>0 \<le> 1/2\<close> with a leaf for label A on the left and a leaf for
  label B on the right.\<close>

definition stump_root :: tree where
  "stump_root = Split 1 0 (1 / 2) (Leaf 2 [10, 0]) (Leaf 3 [0, 10])"

definition stump :: decision_tree where
  "stump = \<lparr>root_node = stump_root, space_size = 1, tree_labels = [''A'', ''B''], tree_n_labels = 2\<rparr>"

section \<open>Completeness and soundness of the reachable leaves\<close>

text \<open>
  Claim C5 (reachable-leaf completeness).  For a tree whose splits test features of the space
  of the hyperrectangle \<open>x\<close>, every leaf that the concrete walk reaches from the root on a
  point \<open>p\<close> of \<open>x\<close> is among the leaves that \<open>reachable_leaves\<close> returns.
\<close>

theorem reachable_leaves_complete:
  assumes "indices_below (length x) (root_node T)"
    and "in_hyperrectangle p x"
    and "tree_walk (decision_tree_get_root T) p = leaf"
  shows "leaf \<in> set (reachable_leaves T x)"
  using assms tree_walk_guarded [of x "root_node T" p "[]"]
  by (simp add: reachable_leaves_set decision_tree_get_root_def)

text \<open>
  Witness for claim C5: the stump on the box \<open>[0, 1]\<close> and the point \<open>3/4\<close>, which walks
  to the right leaf.
\<close>

theorem reachable_leaves_complete_witness:
  "indices_below (length [\<lparr>l = 0, u = 1\<rparr>]) (root_node stump) \<and>
   in_hyperrectangle [3 / 4] [\<lparr>l = 0, u = 1\<rparr>] \<and>
   tree_walk (decision_tree_get_root stump) [3 / 4] = NodeAt (Leaf 3 [0, 10]) [(RightSide, stump_root)] \<and>
   NodeAt (Leaf 3 [0, 10]) [(RightSide, stump_root)] \<in> set (reachable_leaves stump [\<lparr>l = 0, u = 1\<rparr>])"
proof -
  have a: "indices_below (length [\<lparr>l = 0, u = 1\<rparr>]) (root_node stump)"
    by (simp add: stump_def stump_root_def)
  have b: "in_hyperrectangle [3 / 4] [\<lparr>l = 0, u = 1\<rparr>]"
    by (simp add: in_hyperrectangle_def in_interval_def)
  have c: "tree_walk (decision_tree_get_root stump) [3 / 4]
             = NodeAt (Leaf 3 [0, 10]) [(RightSide, stump_root)]"
    by (simp add: decision_tree_get_root_def stump_def stump_root_def)
  from reachable_leaves_complete [OF a b c] a b c show ?thesis by simp
qed





section \<open>Tier adjustment (forest_hyperrectangle.c)\<close>

text \<open>
  Modelled from the spec: the structure \<open>Tier\<close> is declared in \<open>tier.h\<close>, which is not
  among the sources; \<open>adjust_tier\<close>, which is, reads its fields \<open>tiers\<close> (the group of
  every feature, \<open>0\<close> for a feature outside every group) and \<open>size\<close>.  It is modelled by
  the list of the groups, \<open>size\<close> being its length.
\<close>

type_synonym Tier = "nat list"

text \<open>
  The loop that turns a feature off keeps the counters \<open>n_members\<close> and \<open>n_off\<close> and the
  index \<open>candidate\<close>.  The test \<open>n_members == n_off + 1\<close> stands inside the loop, after the
  block guarded by \<open>tier.tiers[j] == group\<close>, so it runs at every index \<open>j\<close>.
\<close>

definition adjust_tier_off_step ::
  "Tier \<Rightarrow> nat \<Rightarrow> nat \<Rightarrow> (nat \<times> nat \<times> nat) \<times> hyperrectangle \<Rightarrow> (nat \<times> nat \<times> nat) \<times> hyperrectangle" where
  "adjust_tier_off_step tier grp j s =
     (case s of ((n_members, n_off, candidate), x) \<Rightarrow>
        (let c = (if tier ! j = grp
                  then (let is_off = (if l (x ! j) = 0 \<and> u (x ! j) = 0 then 1 else 0 :: nat)
                        in (n_members + 1, n_off + is_off, j * (1 - is_off)))
                  else (n_members, n_off, candidate))
         in (case c of (n_members, n_off, candidate) \<Rightarrow>
               if n_members = n_off + 1
               then (c, x[candidate := \<lparr>l = 1, u = 1\<rparr>])
               else (c, x))))"

definition adjust_tier :: "hyperrectangle \<Rightarrow> Tier \<Rightarrow> nat \<Rightarrow> bool \<Rightarrow> hyperrectangle" where
  "adjust_tier x tier i is_active =
     (let grp = tier ! i
      in if grp = 0 then x
         else if is_active then
           fold (\<lambda>j x. if j \<noteq> i \<and> tier ! j = grp then x[j := \<lparr>l = 0, u = 0\<rparr>] else x)
             [0..<length tier] (x[i := \<lparr>l = 1, u = 1\<rparr>])
         else
           snd (fold (adjust_tier_off_step tier grp) [0..<length tier]
                  ((0, 0, 0), x[i := \<lparr>l = 0, u = 0\<rparr>])))"

text \<open>The interval sum of the features of a group, and the number of its features whose lower
  bound is positive.\<close>

definition tier_group_sum :: "hyperrectangle \<Rightarrow> Tier \<Rightarrow> nat \<Rightarrow> interval" where
  "tier_group_sum x tier g =
     fold (\<lambda>j s. if tier ! j = g then interval_add s (x ! j) else s) [0..<length tier] \<lparr>l = 0, u = 0\<rparr>"

definition tier_group_n_positive :: "hyperrectangle \<Rightarrow> Tier \<Rightarrow> nat \<Rightarrow> nat" where
  "tier_group_n_positive x tier g = length (filter (\<lambda>j. tier ! j = g \<and> l (x ! j) > 0) [0..<length tier])"

text \<open>
  Claim C6 (tier preservation) fails on the code.  Three features form group \<open>1\<close> and each
  lies in \<open>[0, 1]\<close>; feature \<open>2\<close> is turned off.  At \<open>j = 0\<close> the loop has seen one member, none
  of them off, so \<open>n_members = n_off + 1\<close> holds and feature \<open>0\<close> is forced to \<open>[1, 1]\<close>
  although feature \<open>1\<close> is still \<open>[0, 1]\<close>.  The interval sum of the group is \<open>[1, 2]\<close>, which
  is not contained in \<open>[0, 1]\<close>.
\<close>

theorem adjust_tier_off_breaks_group_sum:
  "list_all (\<lambda>v. 0 \<le> l v \<and> l v \<le> u v \<and> u v \<le> 1) [\<lparr>l = 0, u = 1\<rparr>, \<lparr>l = 0, u = 1\<rparr>, \<lparr>l = 0, u = 1\<rparr>] \<and>
   adjust_tier [\<lparr>l = 0, u = 1\<rparr>, \<lparr>l = 0, u = 1\<rparr>, \<lparr>l = 0, u = 1\<rparr>] [1, 1, 1] 2 False
     = [\<lparr>l = 1, u = 1\<rparr>, \<lparr>l = 0, u = 1\<rparr>, \<lparr>l = 0, u = 0\<rparr>] \<and>
   tier_group_sum (adjust_tier [\<lparr>l = 0, u = 1\<rparr>, \<lparr>l = 0, u = 1\<rparr>, \<lparr>l = 0, u = 1\<rparr>] [1, 1, 1] 2 False)
     [1, 1, 1] 1 = \<lparr>l = 1, u = 2\<rparr> \<and>
   \<not> u (tier_group_sum (adjust_tier [\<lparr>l = 0, u = 1\<rparr>, \<lparr>l = 0, u = 1\<rparr>, \<lparr>l = 0, u = 1\<rparr>] [1, 1, 1] 2 False)
     [1, 1, 1] 1) \<le> 1"
proof -
  have up: "[0..<3] = [0, 1, 2]" by (simp add: upt_rec)
  have a: "adjust_tier [\<lparr>l = 0, u = 1\<rparr>, \<lparr>l = 0, u = 1\<rparr>, \<lparr>l = 0, u = 1\<rparr>] [1, 1, 1] 2 False
     = [\<lparr>l = 1, u = 1\<rparr>, \<lparr>l = 0, u = 1\<rparr>, \<lparr>l = 0, u = 0\<rparr>]"
    by (simp add: adjust_tier_def adjust_tier_off_step_def up Let_def)
  show ?thesis unfolding a
    by (simp add: tier_group_sum_def up interval_add_def)
qed


section \<open>Sets of labels (set.c)\<close>

text \<open>
  A set of the source is an array of pairwise different elements with its size; the sets of
  the analysis hold labels and compare them with \<open>strcmp\<close>.  The model is the list of the
  elements, in the order of the array.
\<close>

type_synonym label_set = "string list"

definition set_has_element :: "label_set \<Rightarrow> string \<Rightarrow> bool" where
  "set_has_element S x = list_ex (\<lambda>e. x = e) S"

definition set_add_element :: "label_set \<Rightarrow> string \<Rightarrow> label_set" where
  "set_add_element S x = (if set_has_element S x then S else S @ [x])"

definition set_is_subset :: "label_set \<Rightarrow> label_set \<Rightarrow> bool" where
  "set_is_subset A B = list_all (\<lambda>a. set_has_element B a) A"

definition set_is_equal :: "label_set \<Rightarrow> label_set \<Rightarrow> bool" where
  "set_is_equal A B = (if length A = length B then set_is_subset A B \<and> set_is_subset B A else False)"

definition set_is_disjoint :: "label_set \<Rightarrow> label_set \<Rightarrow> bool" where
  "set_is_disjoint A B = list_all (\<lambda>a. list_all (\<lambda>b. a \<noteq> b) B) A"

definition set_get_cardinality :: "label_set \<Rightarrow> nat" where
  "set_get_cardinality S = length S"

definition set_intersection :: "label_set \<Rightarrow> label_set \<Rightarrow> label_set" where
  "set_intersection A B = fold (\<lambda>x T. if set_has_element B x then set_add_element T x else T) A []"

section \<open>Classification by a decision tree (decision_tree.c)\<close>

definition decision_tree_compute_decision_function :: "decision_tree \<Rightarrow> real list \<Rightarrow> real list" where
  "decision_tree_compute_decision_function T x =
     (case node_tree (tree_walk (decision_tree_get_root T) x) of
        Leaf ident scores \<Rightarrow>
          map (\<lambda>i. real (scores ! i) / real (leaf_n_samples scores)) [0..<tree_n_labels T]
      | LeafLog ident lscores w \<Rightarrow> map (\<lambda>i. lscores ! i) [0..<tree_n_labels T])"

text \<open>The labels whose score is the greatest one: the two loops that end
  \<open>decision_tree_classify\<close> and \<open>forest_classify\<close>.\<close>

definition labels_of_max_score :: "string list \<Rightarrow> nat \<Rightarrow> real list \<Rightarrow> label_set" where
  "labels_of_max_score labels_array n_labels scores =
     (let max_s = fold (\<lambda>i m. if scores ! i > m then scores ! i else m) [1..<n_labels] (scores ! 0)
      in fold (\<lambda>i labels. if scores ! i = max_s then set_add_element labels (labels_array ! i) else labels)
           [0..<n_labels] [])"

definition decision_tree_classify :: "decision_tree \<Rightarrow> real list \<Rightarrow> label_set" where
  "decision_tree_classify T x =
     labels_of_max_score (tree_labels T) (tree_n_labels T) (decision_tree_compute_decision_function T x)"

section \<open>Stability of a decision tree in a hyperrectangle (decision_tree_hyperrectangle.c)\<close>

datatype StabilityResult = STABILITY_TRUE | STABILITY_FALSE | STABILITY_DONT_KNOW

record StabilityStatus =
  result :: StabilityResult
  has_sample :: bool
  sample_a :: "real list"
  sample_b :: "real list"
  region :: hyperrectangle
  labels_a :: label_set
  timeout :: nat

text \<open>The labels of a leaf, from its scores (\<open>scores_to_labels\<close> on the numbers of samples,
  \<open>log_scores_to_labels\<close> on the logarithmic scores).\<close>

definition scores_to_labels_of_leaf :: "nat list \<Rightarrow> decision_tree \<Rightarrow> label_set" where
  "scores_to_labels_of_leaf scores T =
     (let max_s = fold (\<lambda>i m. if scores ! i > m then scores ! i else m) [0..<tree_n_labels T] (scores ! 0)
      in fold (\<lambda>i labels. if scores ! i = max_s then set_add_element labels (tree_labels T ! i) else labels)
           [0..<tree_n_labels T] [])"

definition log_scores_to_labels :: "real list \<Rightarrow> decision_tree \<Rightarrow> label_set" where
  "log_scores_to_labels scores T =
     (let max_s = fold (\<lambda>i m. if scores ! i > m then scores ! i else m) [0..<tree_n_labels T] (scores ! 0)
      in fold (\<lambda>i labels. if scores ! i = max_s then set_add_element labels (tree_labels T ! i) else labels)
           [0..<tree_n_labels T] [])"

text \<open>
  The context of the search holds the tree, the region and the labels of the reference
  sample.  \<open>is_counterexample_leaf\<close> is the goal test and \<open>compute_reachable_paths\<close> the
  adjacency function that \<open>search_counterexample\<close> passes to \<open>depth_first_search\<close>.
\<close>

definition is_counterexample_leaf :: "decision_tree \<Rightarrow> label_set \<Rightarrow> DecisionTreeNode \<Rightarrow> bool" where
  "is_counterexample_leaf T concrete_labels node =
     (case node_tree node of
        Leaf ident scores \<Rightarrow> \<not> set_is_equal concrete_labels (scores_to_labels_of_leaf scores T)
      | LeafLog ident lscores w \<Rightarrow> \<not> set_is_equal concrete_labels (log_scores_to_labels lscores T)
      | Split ident i k lt rt \<Rightarrow> False)"

definition compute_reachable_paths :: "hyperrectangle \<Rightarrow> DecisionTreeNode \<Rightarrow> DecisionTreeNode list" where
  "compute_reachable_paths x node =
     (if decision_tree_node_is_leaf node then []
      else
        (let i = decision_tree_univariate_linear_split_get_index node;
             k = decision_tree_univariate_linear_split_get_threshold node;
             L1 = (if l (x ! i) \<le> k then [decision_tree_univariate_linear_split_get_left_child node] else [])
         in (if u (x ! i) > k
             then L1 @ [decision_tree_univariate_linear_split_get_right_child node] else L1)))"

text \<open>Moving the adjacent nodes to the stack: \<open>list_pop\<close> takes the last element of the list,
  \<open>stack_push\<close> puts it on top.\<close>

fun push_adjacent :: "DecisionTreeNode list \<Rightarrow> DecisionTreeNode list \<Rightarrow> DecisionTreeNode list" where
  "push_adjacent adjacent_nodes S = foldr (\<lambda>y S. y # S) adjacent_nodes S"

lemma push_adjacent_append: "push_adjacent adjacent_nodes S = adjacent_nodes @ S"
  by (induction adjacent_nodes) auto

lemma parent_is_closer_to_root:
  "\<not> decision_tree_node_is_root current \<Longrightarrow>
   length (node_up (decision_tree_node_get_parent current)) < length (node_up current)"
  by (cases current rule: decision_tree_node_get_parent.cases) auto

lemma compute_reachable_paths_measure:
  "sum_list (map (\<lambda>m. n_nodes (node_tree m)) (compute_reachable_paths x n))
     < n_nodes (node_tree n)"
  by (cases n rule: decision_tree_node_is_leaf.cases) (auto simp: compute_reachable_paths_def Let_def)

text \<open>
  \<open>depth_first_search\<close> with the two functions above: the stack \<open>S\<close> (top first) starts with
  the root; the result is the goal node, if one is found before the stack is empty.
\<close>

function depth_first_search_loop ::
  "decision_tree \<Rightarrow> hyperrectangle \<Rightarrow> label_set \<Rightarrow> DecisionTreeNode list \<Rightarrow> DecisionTreeNode option" where
  "depth_first_search_loop T x concrete_labels [] = None"
| "depth_first_search_loop T x concrete_labels (n # S) =
     (if is_counterexample_leaf T concrete_labels n then Some n
      else depth_first_search_loop T x concrete_labels (push_adjacent (compute_reachable_paths x n) S))"
  by pat_completeness auto
termination
proof (relation "measure (\<lambda>(T, x, c, S). sum_list (map (\<lambda>m. n_nodes (node_tree m)) S))")
  show "wf (measure (\<lambda>(T, x, c, S). sum_list (map (\<lambda>m. n_nodes (node_tree m)) S)))" by simp
next
  fix T :: decision_tree and x :: hyperrectangle and c :: label_set and n S
  from compute_reachable_paths_measure [of x n]
  show "((T, x, c, push_adjacent (compute_reachable_paths x n) S), (T, x, c, n # S))
      \<in> measure (\<lambda>(T, x, c, S). sum_list (map (\<lambda>m. n_nodes (node_tree m)) S))"
    by (simp add: push_adjacent_append del: push_adjacent.simps)
qed

definition depth_first_search ::
  "decision_tree \<Rightarrow> hyperrectangle \<Rightarrow> label_set \<Rightarrow> DecisionTreeNode \<Rightarrow> DecisionTreeNode option" where
  "depth_first_search T x concrete_labels root_n = depth_first_search_loop T x concrete_labels [root_n]"

text \<open>
  \<open>leaf_to_hyperrectangle\<close> climbs from the leaf to the root; \<open>leaf_to_hyperrectangle_step\<close>
  is the body of its loop.  Coming from a left child it lowers the upper bound to at most \<open>k\<close>;
  coming from a right child it sets the lower bound to \<open>max(x.intervals[i].u, k)\<close>.
\<close>

definition leaf_to_hyperrectangle_step :: "hyperrectangle \<Rightarrow> DecisionTreeNode \<Rightarrow> hyperrectangle" where
  "leaf_to_hyperrectangle_step x previous =
     (let current = decision_tree_node_get_parent previous;
          i = decision_tree_univariate_linear_split_get_index current;
          k = decision_tree_univariate_linear_split_get_threshold current
      in if decision_tree_univariate_linear_split_get_left_child current = previous
         then x[i := (x ! i)\<lparr>u := min (u (x ! i)) k\<rparr>]
         else if decision_tree_univariate_linear_split_get_right_child current = previous
         then x[i := (x ! i)\<lparr>l := max (u (x ! i)) k\<rparr>]
         else x)"

function leaf_to_hyperrectangle :: "hyperrectangle \<Rightarrow> DecisionTreeNode \<Rightarrow> hyperrectangle" where
  "leaf_to_hyperrectangle x current =
     (if decision_tree_node_is_root current then x
      else leaf_to_hyperrectangle (leaf_to_hyperrectangle_step x current)
             (decision_tree_node_get_parent current))"
  by pat_completeness auto
termination
  by (relation "measure (\<lambda>(x, current). length (node_up current))")
    (simp_all add: parent_is_closer_to_root)


declare leaf_to_hyperrectangle.simps [simp del]

definition search_counterexample :: "StabilityStatus \<Rightarrow> decision_tree \<Rightarrow> hyperrectangle \<Rightarrow> StabilityStatus" where
  "search_counterexample status T x =
     (case depth_first_search T x (labels_a status) (decision_tree_get_root T) of
        None \<Rightarrow> status
      | Some leaf \<Rightarrow>
          (let y = leaf_to_hyperrectangle x leaf
           in status\<lparr>result := STABILITY_FALSE, sample_b := hyperrectangle_midpoint y\<rparr>))"

definition decision_tree_hyperrectangle_is_stable ::
  "StabilityStatus \<Rightarrow> decision_tree \<Rightarrow> hyperrectangle \<Rightarrow> StabilityStatus" where
  "decision_tree_hyperrectangle_is_stable status T x =
     (let has_sample_0 = has_sample status;
          status1 = (if \<not> has_sample_0
                     then status\<lparr>sample_a := hyperrectangle_midpoint x,
                                 labels_a := decision_tree_classify T (hyperrectangle_midpoint x)\<rparr>
                     else status);
          status2 = status1\<lparr>result := STABILITY_DONT_KNOW\<rparr>;
          status3 = search_counterexample status2 T x;
          status4 = (if result status3 = STABILITY_DONT_KNOW
                     then status3\<lparr>result := STABILITY_TRUE\<rparr> else status3)
      in if \<not> has_sample_0 then status4\<lparr>has_sample := False\<rparr> else status4)"

section \<open>The verdict of the single-tree verifier\<close>

lemma search_counterexample_result:
  "result (search_counterexample status T x) = result status \<or>
   result (search_counterexample status T x) = STABILITY_FALSE"
  by (simp add: search_counterexample_def Let_def split: option.split)

text \<open>
  Claim C10.  \<open>decision_tree_hyperrectangle_is_stable\<close> is a total function: its loops are
  the depth-first search, whose stack loses a node of the tree at every step, the climb from the
  leaf to the root and the walk of the classification.  The result it returns is
  \<open>STABILITY_TRUE\<close> or \<open>STABILITY_FALSE\<close>, for every status, tree and region: the value
  \<open>STABILITY_DONT_KNOW\<close> written before the search is replaced when the search leaves it.
\<close>

theorem decision_tree_hyperrectangle_is_stable_decides:
  "result (decision_tree_hyperrectangle_is_stable status T x) = STABILITY_TRUE \<or>
   result (decision_tree_hyperrectangle_is_stable status T x) = STABILITY_FALSE"
proof -
  define status2 where "status2 =
    (if \<not> has_sample status
     then status\<lparr>sample_a := hyperrectangle_midpoint x,
                 labels_a := decision_tree_classify T (hyperrectangle_midpoint x)\<rparr>
     else status)\<lparr>result := STABILITY_DONT_KNOW\<rparr>"
  have "result status2 = STABILITY_DONT_KNOW" by (simp add: status2_def)
  with search_counterexample_result [of status2 T x]
  have "result (search_counterexample status2 T x) = STABILITY_DONT_KNOW \<or>
        result (search_counterexample status2 T x) = STABILITY_FALSE"
    by simp
  then show ?thesis
    unfolding decision_tree_hyperrectangle_is_stable_def Let_def status2_def [symmetric]
    by (auto split: if_splits)
qed

section \<open>The witness of the single-tree verifier\<close>

text \<open>
  A tree that tests feature \<open>0\<close> twice: \<open>x\<^sub>0 \<le> 1\<close> at the root and \<open>x\<^sub>0 \<le> 0\<close> at its left
  child.  The leaf for label A lies below \<open>x\<^sub>0 \<le> 1\<close> and \<open>x\<^sub>0 > 0\<close>; the two other leaves
  are for label B.
\<close>

definition narrow_inner :: tree where
  "narrow_inner = Split 2 0 0 (Leaf 3 [0, 1]) (Leaf 4 [1, 0])"

definition narrow_root :: tree where
  "narrow_root = Split 1 0 1 narrow_inner (Leaf 5 [0, 1])"

definition narrow_tree :: decision_tree where
  "narrow_tree =
     \<lparr>root_node = narrow_root, space_size = 1, tree_labels = [''A'', ''B''], tree_n_labels = 2\<rparr>"

definition narrow_status :: StabilityStatus where
  "narrow_status =
     \<lparr>result = STABILITY_DONT_KNOW, has_sample = True, sample_a = [- (1 / 2)], sample_b = [0],
      region = [\<lparr>l = 0, u = 0\<rparr>], labels_a = [''B''], timeout = 1\<rparr>"

definition narrow_leaf :: DecisionTreeNode where
  "narrow_leaf = NodeAt (Leaf 4 [1, 0]) [(RightSide, narrow_inner), (LeftSide, narrow_root)]"

lemma narrow_tree_classify:
  "decision_tree_classify narrow_tree [- (1 / 2)] = [''B'']"
  "decision_tree_classify narrow_tree [3 / 2] = [''B'']"
  by (simp_all add: decision_tree_classify_def decision_tree_compute_decision_function_def
      labels_of_max_score_def decision_tree_get_root_def narrow_tree_def narrow_root_def
      narrow_inner_def leaf_n_samples_def upt_rec Let_def set_add_element_def set_has_element_def)

lemma narrow_tree_search:
  "depth_first_search narrow_tree [\<lparr>l = - 3, u = 2\<rparr>] [''B''] (decision_tree_get_root narrow_tree)
     = Some narrow_leaf"
  by (simp add: depth_first_search_def decision_tree_get_root_def narrow_tree_def narrow_root_def
      narrow_inner_def narrow_leaf_def is_counterexample_leaf_def compute_reachable_paths_def
      Let_def scores_to_labels_of_leaf_def upt_rec set_is_equal_def set_is_subset_def
      set_add_element_def set_has_element_def)

lemma narrow_tree_leaf_to_hyperrectangle:
  "leaf_to_hyperrectangle [\<lparr>l = - 3, u = 2\<rparr>] narrow_leaf = [\<lparr>l = 2, u = 1\<rparr>]"
  by (simp add: leaf_to_hyperrectangle.simps leaf_to_hyperrectangle_step_def Let_def
      narrow_leaf_def narrow_root_def narrow_inner_def)

text \<open>
  Claim C2 (witness validity) fails on the code of the single-tree verifier.  The reference
  sample \<open>-1/2\<close> has the label B and the region is \<open>[-3, 2]\<close>.  The search finds the leaf for
  label A; \<open>leaf_to_hyperrectangle\<close> turns the region into \<open>[2, 1]\<close> (it sets the lower bound
  to \<open>max(u, k) = max(2, 0)\<close> and then the upper bound to \<open>min(2, 1)\<close>), and the witness is
  its midpoint \<open>3/2\<close>.  The verdict is \<open>STABILITY_FALSE\<close>, the witness lies in the region,
  and the tree gives it the label B of the reference sample.
\<close>

theorem decision_tree_witness_has_reference_labels:
  "result (decision_tree_hyperrectangle_is_stable narrow_status narrow_tree [\<lparr>l = - 3, u = 2\<rparr>])
     = STABILITY_FALSE \<and>
   sample_b (decision_tree_hyperrectangle_is_stable narrow_status narrow_tree [\<lparr>l = - 3, u = 2\<rparr>])
     = [3 / 2] \<and>
   labels_a (decision_tree_hyperrectangle_is_stable narrow_status narrow_tree [\<lparr>l = - 3, u = 2\<rparr>])
     = decision_tree_classify narrow_tree (sample_a narrow_status) \<and>
   in_hyperrectangle [3 / 2] [\<lparr>l = - 3, u = 2\<rparr>] \<and>
   decision_tree_classify narrow_tree [3 / 2] = decision_tree_classify narrow_tree (sample_a narrow_status)"
proof -
  have a: "labels_a narrow_status = [''B'']" "sample_a narrow_status = [- (1 / 2)]"
    "has_sample narrow_status"
    by (simp_all add: narrow_status_def)
  have "search_counterexample (narrow_status\<lparr>result := STABILITY_DONT_KNOW\<rparr>) narrow_tree [\<lparr>l = - 3, u = 2\<rparr>]
        = narrow_status\<lparr>result := STABILITY_FALSE, sample_b := [3 / 2]\<rparr>"
    by (simp add: search_counterexample_def a narrow_tree_search narrow_tree_leaf_to_hyperrectangle
        hyperrectangle_midpoint_def interval_midpoint_def)
  then show ?thesis
    by (simp add: decision_tree_hyperrectangle_is_stable_def a narrow_tree_classify
        in_hyperrectangle_def in_interval_def)
qed


section \<open>Binary heap (binary_heap.c)\<close>

text \<open>
  A node of the heap is an element with its key.  The array \<open>nodes\<close> of the source has
  \<open>capacity\<close> slots, of which the first \<open>size\<close> are the heap; the model keeps the slots
  that have been written so far, so a slot at or beyond \<open>size\<close> still holds what was last
  stored there.  \<open>binary_heap_pop\<close> on an empty heap prints a message and exits: it
  has no result.
\<close>

datatype HeapType = HEAP_MIN | HEAP_MAX

record 'a binary_heap =
  nodes :: "('a \<times> real) list"
  heap_size :: nat
  capacity :: nat
  heap_type :: HeapType

definition index_of_parent :: "nat \<Rightarrow> nat" where
  "index_of_parent i = (i - 1) div 2"

definition index_of_left_child :: "nat \<Rightarrow> nat" where
  "index_of_left_child i = 2 * i + 1"

definition index_of_right_child :: "nat \<Rightarrow> nat" where
  "index_of_right_child i = 2 * i + 2"

definition swap_nodes :: "('a \<times> real) list \<Rightarrow> nat \<Rightarrow> nat \<Rightarrow> ('a \<times> real) list" where
  "swap_nodes ns i j = (ns[i := ns ! j])[j := ns ! i]"

definition heap_property_local :: "HeapType \<Rightarrow> ('a \<times> real) list \<Rightarrow> nat \<Rightarrow> bool" where
  "heap_property_local ty ns node_idx =
     (if node_idx = 0 then True
      else (case ty of
              HEAP_MIN \<Rightarrow> snd (ns ! index_of_parent node_idx) \<le> snd (ns ! node_idx)
            | HEAP_MAX \<Rightarrow> snd (ns ! index_of_parent node_idx) \<ge> snd (ns ! node_idx)))"

definition chose_child :: "HeapType \<Rightarrow> ('a \<times> real) list \<Rightarrow> nat \<Rightarrow> nat \<Rightarrow> nat" where
  "chose_child ty ns left right =
     (case ty of
        HEAP_MIN \<Rightarrow> (if snd (ns ! left) < snd (ns ! right) then left else right)
      | HEAP_MAX \<Rightarrow> (if snd (ns ! left) > snd (ns ! right) then left else right))"

function sift_up :: "HeapType \<Rightarrow> ('a \<times> real) list \<Rightarrow> nat \<Rightarrow> ('a \<times> real) list" where
  "sift_up ty ns node_idx =
     (if heap_property_local ty ns node_idx then ns
      else sift_up ty (swap_nodes ns node_idx (index_of_parent node_idx)) (index_of_parent node_idx))"
  by pat_completeness auto
termination
  by (relation "measure (\<lambda>(ty, ns, node_idx). node_idx)")
    (auto simp: heap_property_local_def index_of_parent_def split: if_splits)

definition is_restored :: "HeapType \<Rightarrow> ('a \<times> real) list \<Rightarrow> nat \<Rightarrow> nat \<Rightarrow> bool" where
  "is_restored ty ns sz node_idx =
     ((if index_of_left_child node_idx < sz
       then heap_property_local ty ns (index_of_left_child node_idx) else True) \<and>
      (if index_of_right_child node_idx < sz
       then heap_property_local ty ns (index_of_right_child node_idx) else True))"

function sift_down :: "HeapType \<Rightarrow> ('a \<times> real) list \<Rightarrow> nat \<Rightarrow> nat \<Rightarrow> ('a \<times> real) list" where
  "sift_down ty ns sz node_idx =
     (if is_restored ty ns sz node_idx then ns
      else
        (let swap_idx = chose_child ty ns (index_of_left_child node_idx) (index_of_right_child node_idx)
         in sift_down ty (swap_nodes ns node_idx swap_idx) sz swap_idx))"
  by pat_completeness auto
termination
  by (relation "measure (\<lambda>(ty, ns, sz, node_idx). sz - node_idx)")
    (auto simp: is_restored_def chose_child_def index_of_left_child_def index_of_right_child_def
      split: if_splits HeapType.splits)

declare sift_up.simps [simp del] sift_down.simps [simp del]

definition binary_heap_create :: "HeapType \<Rightarrow> 'a binary_heap" where
  "binary_heap_create ty = \<lparr>nodes = [], heap_size = 0, capacity = 16, heap_type = ty\<rparr>"

definition binary_heap_is_empty :: "'a binary_heap \<Rightarrow> bool" where
  "binary_heap_is_empty H = (heap_size H = 0)"

definition store_node :: "('a \<times> real) list \<Rightarrow> nat \<Rightarrow> 'a \<times> real \<Rightarrow> ('a \<times> real) list" where
  "store_node ns i v = (if i < length ns then ns[i := v] else ns @ [v])"

definition binary_heap_push :: "'a binary_heap \<Rightarrow> 'a \<Rightarrow> real \<Rightarrow> 'a binary_heap" where
  "binary_heap_push H x key =
     (let H1 = (if heap_size H = capacity H then H\<lparr>capacity := capacity H * 2\<rparr> else H);
          ns = store_node (nodes H1) (heap_size H1) (x, key)
      in H1\<lparr>nodes := sift_up (heap_type H1) ns (heap_size H1), heap_size := heap_size H1 + 1\<rparr>)"

definition binary_heap_pop :: "'a binary_heap \<Rightarrow> ('a \<times> 'a binary_heap) option" where
  "binary_heap_pop H =
     (if heap_size H = 0 then None
      else
        (let x = fst (nodes H ! 0);
             ns = (nodes H)[0 := nodes H ! (heap_size H - 1)];
             sz = heap_size H - 1
         in Some (x, H\<lparr>nodes := sift_down (heap_type H) ns sz 0, heap_size := sz\<rparr>)))"





section \<open>Correctness of the max-heap\<close>




lemma swap_nodes_length [simp]: "length (swap_nodes ns i j) = length ns"
  by (simp add: swap_nodes_def)




lemma children_parent [simp]:
  "index_of_parent (index_of_left_child i) = i" "index_of_parent (index_of_right_child i) = i"
  by (simp_all add: index_of_parent_def index_of_left_child_def index_of_right_child_def)










section \<open>Priority queue (priority_queue.h)\<close>

text \<open>
  Modelled from the spec: the implementation of the priority queue (\<open>priority_queue.c\<close>) is
  not among the sources, only its header is.  The specification describes it as a max-heap,
  and \<open>priority_queue_pop\<close> is documented to remove and return the element with highest
  priority; it is modelled by the binary heap of \<open>binary_heap.c\<close> with type \<open>HEAP_MAX\<close>.
\<close>

type_synonym 'a PriorityQueue = "'a binary_heap"

definition priority_queue_create :: "'a PriorityQueue" where
  "priority_queue_create = binary_heap_create HEAP_MAX"

definition priority_queue_is_empty :: "'a PriorityQueue \<Rightarrow> bool" where
  "priority_queue_is_empty P = binary_heap_is_empty P"

definition priority_queue_push :: "'a PriorityQueue \<Rightarrow> 'a \<Rightarrow> real \<Rightarrow> 'a PriorityQueue" where
  "priority_queue_push P x priority = binary_heap_push P x priority"

definition priority_queue_pop :: "'a PriorityQueue \<Rightarrow> ('a \<times> 'a PriorityQueue) option" where
  "priority_queue_pop P = binary_heap_pop P"

section \<open>Forests (forest.c)\<close>

datatype ForestVotingScheme = FOREST_VOTING_MAX | FOREST_VOTING_AVERAGE | FOREST_VOTING_SOFTARGMAX

record forest =
  voting_scheme :: ForestVotingScheme
  trees :: "decision_tree list"

definition forest_get_n_trees :: "forest \<Rightarrow> nat" where
  "forest_get_n_trees F = length (trees F)"

definition forest_get_n_labels :: "forest \<Rightarrow> nat" where
  "forest_get_n_labels F = tree_n_labels (trees F ! 0)"

definition forest_get_labels_as_array :: "forest \<Rightarrow> string list" where
  "forest_get_labels_as_array F = tree_labels (trees F ! 0)"

definition decision_function_max :: "forest \<Rightarrow> real list \<Rightarrow> real list" where
  "decision_function_max F x =
     (let n_labels = forest_get_n_labels F
      in fold (\<lambda>T scores.
                 (let tree_scores = decision_tree_compute_decision_function T x;
                      max_s = fold (\<lambda>j m. if tree_scores ! j > m then tree_scores ! j else m)
                                [1..<n_labels] (tree_scores ! 0)
                  in map (\<lambda>j. if tree_scores ! j = max_s then scores ! j + 1 else scores ! j)
                       [0..<n_labels]))
           (trees F) (map (\<lambda>i. 0) [0..<n_labels]))"

definition decision_function_average :: "forest \<Rightarrow> real list \<Rightarrow> real list" where
  "decision_function_average F x =
     (let n_labels = forest_get_n_labels F
      in fold (\<lambda>T scores.
                 (let tree_scores = decision_tree_compute_decision_function T x
                  in map (\<lambda>j. scores ! j + tree_scores ! j / real (length (trees F))) [0..<n_labels]))
           (trees F) (map (\<lambda>i. 0) [0..<n_labels]))"

definition decision_function_softargmax :: "forest \<Rightarrow> real list \<Rightarrow> real list" where
  "decision_function_softargmax F x =
     (let n_labels = forest_get_n_labels F
      in fold (\<lambda>T scores.
                 (let tree_scores = decision_tree_compute_decision_function T x
                  in map (\<lambda>j. scores ! j + tree_scores ! j) [0..<n_labels]))
           (trees F) (map (\<lambda>i. 0) [0..<n_labels]))"

definition forest_compute_decision_function :: "forest \<Rightarrow> real list \<Rightarrow> real list" where
  "forest_compute_decision_function F x =
     (case voting_scheme F of
        FOREST_VOTING_MAX \<Rightarrow> decision_function_max F x
      | FOREST_VOTING_AVERAGE \<Rightarrow> decision_function_average F x
      | FOREST_VOTING_SOFTARGMAX \<Rightarrow> decision_function_softargmax F x)"

definition forest_classify :: "forest \<Rightarrow> real list \<Rightarrow> label_set" where
  "forest_classify F x =
     labels_of_max_score (forest_get_labels_as_array F) (forest_get_n_labels F)
       (forest_compute_decision_function F x)"

section \<open>Stability of a forest in a hyperrectangle (forest_hyperrectangle.c)\<close>

text \<open>The constant \<open>EPSILON\<close> of the source is \<open>1e-12\<close>; \<open>DBL_MAX\<close> is the greatest
  finite double.\<close>

definition EPSILON :: real where
  "EPSILON = 1 / 10 ^ 12"

definition DBL_MAX :: real where
  "DBL_MAX = (2 - 1 / 2 ^ 52) * 2 ^ 1023"

datatype InternalStatus = DONT_KNOW | UNSTABLE | ABORTED

text \<open>
  A decorator holds its region (\<open>NULL\<close> once it has been refined), the leaf that was fixed
  last, its parent and its set of labels.  The list of children of the source is used only to
  release memory and is left out.  A decorator reads from its ancestors only the fields
  \<open>leaf\<close> and \<open>parent\<close>, which never change, so the parent is a value inside the child.
\<close>

datatype decorator =
  Decorator (decorator_x: "hyperrectangle option") (decorator_leaf: "DecisionTreeNode option")
    (decorator_parent: "decorator option") (decorator_labels: label_set)

text \<open>
  The common data of the analysis.  The arrays \<open>S\<close>, \<open>L\<close> and \<open>local_scores\<close> are buffers
  that every user fills before reading; they are values local to the functions below.  The
  calls of \<open>time(NULL)\<close> read a clock that is part of the environment: \<open>clock n\<close> is the
  time in seconds at the \<open>n\<close>-th call, and \<open>clock_calls\<close> counts the calls.
\<close>

record analysis_data =
  status :: StabilityStatus
  data_F :: forest
  start_time :: nat
  data_timeout :: nat
  internal_status :: InternalStatus
  data_labels :: "string list"
  data_n_labels :: nat
  data_n_trees :: nat
  local_labels :: label_set
  data_tier :: Tier
  clock :: "nat \<Rightarrow> nat"
  clock_calls :: nat

text \<open>The labels of an array of interval scores: a label is kept unless the score of some
  other label is strictly above its own.\<close>

definition scores_to_labels :: "hyperrectangle \<Rightarrow> analysis_data \<Rightarrow> label_set" where
  "scores_to_labels scores data =
     fold (\<lambda>i labels.
             if set_has_element labels (data_labels data ! i) then labels
             else if list_ex (\<lambda>j. i \<noteq> j \<and> interval_is_lt (scores ! i) (scores ! j)) [0..<data_n_labels data]
             then labels
             else set_add_element labels (data_labels data ! i))
       [0..<data_n_labels data] []"

fun decorator_get_depth :: "decorator \<Rightarrow> nat" where
  "decorator_get_depth (Decorator x lf None labels) = 0"
| "decorator_get_depth (Decorator x lf (Some p) labels) = Suc (decorator_get_depth p)"

text \<open>The fields of a counting leaf and of a logarithmic leaf, read through the node.\<close>

fun leaf_scores :: "DecisionTreeNode \<Rightarrow> nat list" where
  "leaf_scores (NodeAt (Leaf ident scores) up) = scores"

fun leaf_logarithmic_scores :: "DecisionTreeNode \<Rightarrow> real list" where
  "leaf_logarithmic_scores (NodeAt (LeafLog ident lscores w) up) = lscores"

text \<open>The loops \<open>while (current->leaf)\<close> of the three concrete scores walk from the decorator
  to the root of the decorators and add the contribution of every fixed leaf.\<close>

fun fixed_leaves :: "decorator \<Rightarrow> DecisionTreeNode list" where
  "fixed_leaves (Decorator x None p labels) = []"
| "fixed_leaves (Decorator x (Some lf) None labels) = [lf]"
| "fixed_leaves (Decorator x (Some lf) (Some p) labels) = lf # fixed_leaves p"

definition decorator_score_concrete_max :: "decorator \<Rightarrow> analysis_data \<Rightarrow> hyperrectangle" where
  "decorator_score_concrete_max x data =
     fold (\<lambda>lf scores.
             map (\<lambda>i. if leaf_scores lf ! i = leaf_max_score (leaf_scores lf)
                       then \<lparr>l = l (scores ! i) + 1, u = u (scores ! i) + 1\<rparr> else scores ! i)
               [0..<data_n_labels data])
       (fixed_leaves x) (map (\<lambda>i. \<lparr>l = 0, u = 0\<rparr>) [0..<data_n_labels data])"

definition decorator_score_concrete_average :: "decorator \<Rightarrow> analysis_data \<Rightarrow> hyperrectangle" where
  "decorator_score_concrete_average x data =
     (let n_labels = forest_get_n_labels (data_F data)
      in fold (\<lambda>lf scores.
                 map (\<lambda>i. (let p = real (leaf_scores lf ! i) / real (leaf_n_samples (leaf_scores lf))
                                      / real (data_n_trees data)
                            in \<lparr>l = l (scores ! i) + p, u = u (scores ! i) + p\<rparr>))
                   [0..<n_labels])
           (fixed_leaves x) (map (\<lambda>i. \<lparr>l = 0, u = 0\<rparr>) [0..<n_labels]))"

definition decorator_score_concrete_softargmax :: "decorator \<Rightarrow> analysis_data \<Rightarrow> hyperrectangle" where
  "decorator_score_concrete_softargmax x data =
     (let n_labels = forest_get_n_labels (data_F data)
      in fold (\<lambda>lf scores.
                 map (\<lambda>i. \<lparr>l = l (scores ! i) + leaf_logarithmic_scores lf ! i,
                            u = u (scores ! i) + leaf_logarithmic_scores lf ! i\<rparr>)
                   [0..<n_labels])
           (fixed_leaves x) (map (\<lambda>i. \<lparr>l = 0, u = 0\<rparr>) [0..<n_labels]))"

definition decorator_score_concrete :: "decorator \<Rightarrow> analysis_data \<Rightarrow> hyperrectangle" where
  "decorator_score_concrete x data =
     (case voting_scheme (data_F data) of
        FOREST_VOTING_MAX \<Rightarrow> decorator_score_concrete_max x data
      | FOREST_VOTING_AVERAGE \<Rightarrow> decorator_score_concrete_average x data
      | FOREST_VOTING_SOFTARGMAX \<Rightarrow> decorator_score_concrete_softargmax x data)"

definition decorator_score_sound_max ::
  "hyperrectangle \<Rightarrow> decorator \<Rightarrow> decision_tree \<Rightarrow> analysis_data \<Rightarrow> hyperrectangle" where
  "decorator_score_sound_max scores x T data =
     (let L = reachable_leaves T (the (decorator_x x));
          n_leaves = length L;
          local_scores = map (\<lambda>i. length (filter (\<lambda>lf. leaf_scores lf ! i = leaf_max_score (leaf_scores lf)) L))
                           [0..<data_n_labels data]
      in map (\<lambda>i. \<lparr>l = l (scores ! i) + (if local_scores ! i = n_leaves then 1 else 0),
                     u = u (scores ! i) + (if local_scores ! i > 0 then 1 else 0)\<rparr>)
           [0..<data_n_labels data])"

definition decorator_score_sound_average ::
  "hyperrectangle \<Rightarrow> decorator \<Rightarrow> decision_tree \<Rightarrow> analysis_data \<Rightarrow> hyperrectangle" where
  "decorator_score_sound_average scores x T data =
     (let L = reachable_leaves T (the (decorator_x x))
      in map (\<lambda>i.
                (let ps = map (\<lambda>lf. real (leaf_scores lf ! i) / real (leaf_n_samples (leaf_scores lf))) L;
                     min_p = fold (\<lambda>p m. if p < m then p else m) ps 1;
                     max_p = fold (\<lambda>p m. if p > m then p else m) ps 0
                 in \<lparr>l = l (scores ! i) + min_p / real (data_n_trees data),
                     u = u (scores ! i) + max_p / real (data_n_trees data)\<rparr>))
           [0..<data_n_labels data])"

definition decorator_score_sound_softargmax ::
  "hyperrectangle \<Rightarrow> decorator \<Rightarrow> decision_tree \<Rightarrow> analysis_data \<Rightarrow> hyperrectangle" where
  "decorator_score_sound_softargmax scores x T data =
     (let L = reachable_leaves T (the (decorator_x x))
      in map (\<lambda>i.
                (let ps = map (\<lambda>lf. leaf_logarithmic_scores lf ! i) L;
                     min_p = fold (\<lambda>p m. if p < m then p else m) ps DBL_MAX;
                     max_p = fold (\<lambda>p m. if p > m then p else m) ps (- DBL_MAX)
                 in \<lparr>l = l (scores ! i) + min_p, u = u (scores ! i) + max_p\<rparr>))
           [0..<data_n_labels data])"

definition decorator_score_sound :: "hyperrectangle \<Rightarrow> decorator \<Rightarrow> analysis_data \<Rightarrow> hyperrectangle" where
  "decorator_score_sound scores x data =
     (let depth = decorator_get_depth x;
          overapproximate =
            (case voting_scheme (data_F data) of
               FOREST_VOTING_MAX \<Rightarrow> decorator_score_sound_max
             | FOREST_VOTING_AVERAGE \<Rightarrow> decorator_score_sound_average
             | FOREST_VOTING_SOFTARGMAX \<Rightarrow> decorator_score_sound_softargmax);
          scores1 = fold (\<lambda>i scores. overapproximate scores x (trees (data_F data) ! i) data)
                      [depth..<data_n_trees data] scores
      in if voting_scheme (data_F data) = FOREST_VOTING_SOFTARGMAX then
           (let n_labels = forest_get_n_labels (data_F data);
                s_min = fold (\<lambda>i s. s + exp (l (scores1 ! i))) [0..<n_labels] 0;
                s_max = fold (\<lambda>i s. s + exp (u (scores1 ! i))) [0..<n_labels] 0
            in fold (\<lambda>i scores. scores[i := \<lparr>l = exp (l (scores ! i)) / s_max,
                                              u = exp (u (scores ! i)) / s_min\<rparr>])
                 [0..<n_labels] scores1)
         else scores1)"

definition decorator_score_overapproximate :: "decorator \<Rightarrow> analysis_data \<Rightarrow> hyperrectangle" where
  "decorator_score_overapproximate x data = decorator_score_sound (decorator_score_concrete x data) x data"

definition decorator_compute_labels :: "decorator \<Rightarrow> analysis_data \<Rightarrow> label_set" where
  "decorator_compute_labels x data = scores_to_labels (decorator_score_overapproximate x data) data"

text \<open>
  \<open>is_complete\<close> is the goal test of the search: the analysis stops when a counterexample
  has been found or when the time since the start exceeds the timeout.
\<close>

definition is_complete :: "decorator \<Rightarrow> analysis_data \<Rightarrow> bool \<times> analysis_data" where
  "is_complete x data =
     (if internal_status data \<noteq> DONT_KNOW then (True, data)
      else
        (let now = clock data (clock_calls data);
             data1 = data\<lparr>clock_calls := clock_calls data + 1\<rparr>
         in if int now - int (start_time data) > int (data_timeout data)
            then (True, data1\<lparr>internal_status := ABORTED\<rparr>)
            else (False, data1)))"

text \<open>
  The loop of \<open>refine\<close>.  The queues \<open>Qx\<close> and \<open>Qt\<close> receive the same priorities in the same
  order; a pop of an empty queue ends the program, which is the result \<open>None\<close>.  In the branch
  where the region crosses the threshold, \<open>x_left\<close> is the popped hyperrectangle itself,
  so the priorities and the lower bound of \<open>x_right\<close> are computed from \<open>x_left\<close> after its
  upper bound has been lowered and its tier adjusted; \<open>x_right\<close> starts from a copy made
  before.  A division by a radius \<open>0\<close> gives an infinity or a NaN in the source and \<open>0\<close> here.
\<close>

partial_function (option) refine_loop ::
  "decorator \<Rightarrow> hyperrectangle PriorityQueue \<Rightarrow> DecisionTreeNode PriorityQueue \<Rightarrow> decorator list \<Rightarrow>
   analysis_data \<Rightarrow> (decorator list \<times> analysis_data) option" where
  "refine_loop x Qx Qt refined data =
     (if priority_queue_is_empty Qx then Some (refined, data)
      else
        (case priority_queue_pop Qx of
           None \<Rightarrow> None
         | Some (x_prime, Qx1) \<Rightarrow>
             (case priority_queue_pop Qt of
                None \<Rightarrow> None
              | Some (N, Qt1) \<Rightarrow>
                  (let depth = binary_tree_node_get_depth N
                   in if decision_tree_node_is_leaf N then
                        (let h0 = Decorator (Some x_prime) (Some N) (Some x) [];
                             h = Decorator (Some x_prime) (Some N) (Some x) (decorator_compute_labels h0 data)
                         in if set_is_disjoint (decorator_labels h) (labels_a (status data))
                            then Some (refined,
                                   data\<lparr>internal_status := UNSTABLE,
                                        status := (status data)\<lparr>sample_b := hyperrectangle_midpoint x_prime\<rparr>\<rparr>)
                            else if set_is_equal (decorator_labels h) (labels_a (status data))
                            then refine_loop x Qx1 Qt1 refined data
                            else refine_loop x Qx1 Qt1 (refined @ [h]) data)
                      else
                        (let i = decision_tree_univariate_linear_split_get_index N;
                             k = decision_tree_univariate_linear_split_get_threshold N
                         in if l (x_prime ! i) \<le> k \<and> u (x_prime ! i) > k then
                              (let x_left = adjust_tier (x_prime[i := (x_prime ! i)\<lparr>u := min (u (x_prime ! i)) k\<rparr>])
                                              (data_tier data) i False;
                                   priority_left = real depth + (k - l (x_left ! i)) / interval_radius (x_left ! i);
                                   Qx2 = priority_queue_push Qx1 x_left priority_left;
                                   Qt2 = priority_queue_push Qt1
                                           (decision_tree_univariate_linear_split_get_left_child N) priority_left;
                                   x_right = adjust_tier
                                               (x_prime[i := (x_prime ! i)\<lparr>l := max (u (x_left ! i)) (k + EPSILON)\<rparr>])
                                               (data_tier data) i True;
                                   priority_right = real depth + (u (x_left ! i) - k) / interval_radius (x_left ! i);
                                   Qx3 = priority_queue_push Qx2 x_right priority_right;
                                   Qt3 = priority_queue_push Qt2
                                           (decision_tree_univariate_linear_split_get_right_child N) priority_right
                               in refine_loop x Qx3 Qt3 refined data)
                            else if u (x_prime ! i) \<le> k then
                              (let x1 = adjust_tier x_prime (data_tier data) i False;
                                   priority = real depth + (k - l (x1 ! i)) / interval_radius (x1 ! i)
                               in refine_loop x (priority_queue_push Qx1 x1 priority)
                                    (priority_queue_push Qt1
                                       (decision_tree_univariate_linear_split_get_left_child N) priority)
                                    refined data)
                            else if l (x_prime ! i) > k then
                              (let x1 = adjust_tier x_prime (data_tier data) i True;
                                   priority = real depth + (u (x1 ! i) - k) / interval_radius (x1 ! i)
                               in refine_loop x (priority_queue_push Qx1 x1 priority)
                                    (priority_queue_push Qt1
                                       (decision_tree_univariate_linear_split_get_right_child N) priority)
                                    refined data)
                            else refine_loop x Qx1 Qt1 refined data)))))"

definition refine :: "decorator list \<Rightarrow> decorator \<Rightarrow> analysis_data \<Rightarrow> (decorator list \<times> analysis_data) option" where
  "refine refined x data =
     (let depth = decorator_get_depth x
      in if depth = forest_get_n_trees (data_F data) then
           (if \<not> set_is_equal (decorator_labels x) (labels_a (status data))
            then Some (refined,
                   data\<lparr>internal_status := UNSTABLE,
                        status := (status data)\<lparr>sample_b := hyperrectangle_midpoint (the (decorator_x x))\<rparr>\<rparr>)
            else Some (refined, data))
         else
           (let y = the (decorator_x x);
                Qx = priority_queue_push priority_queue_create y 0;
                Qt = priority_queue_push priority_queue_create
                       (decision_tree_get_root (trees (data_F data) ! depth)) 0
            in refine_loop x Qx Qt refined data))"

text \<open>
  \<open>compute_priority\<close> takes the set \<open>data->local_labels\<close> as the abstract labels, counts its
  elements, intersects it in place with the labels of the reference sample and counts again.
\<close>

definition compute_priority :: "decorator \<Rightarrow> analysis_data \<Rightarrow> real \<times> analysis_data" where
  "compute_priority h data =
     (let volume = hyperrectangle_volume (the (decorator_x h));
          n_labels_l = real (set_get_cardinality (local_labels data));
          depth = real (decorator_get_depth h);
          data1 = data\<lparr>local_labels := set_intersection (local_labels data) (labels_a (status data))\<rparr>;
          intersection_size = real (set_get_cardinality (local_labels data1))
      in (- (10 ^ 6) * volume + 1 * depth + 1 * (n_labels_l - intersection_size) / real (data_n_labels data),
          data1))"

text \<open>
  \<open>best_first_search\<close> with the goal test \<open>is_complete\<close>, the adjacency function
  \<open>refine\<close> and the priority function \<open>compute_priority\<close>.  The adjacent nodes are taken
  from the end of the list.
\<close>

definition push_adjacent_nodes ::
  "decorator list \<Rightarrow> decorator PriorityQueue \<Rightarrow> analysis_data \<Rightarrow> decorator PriorityQueue \<times> analysis_data" where
  "push_adjacent_nodes adjacent_nodes Q data =
     fold (\<lambda>y (Q, data). (let (priority, data1) = compute_priority y data
                            in (priority_queue_push Q y priority, data1)))
       (rev adjacent_nodes) (Q, data)"

partial_function (option) best_first_search_loop ::
  "decorator PriorityQueue \<Rightarrow> analysis_data \<Rightarrow> (decorator option \<times> analysis_data) option" where
  "best_first_search_loop Q data =
     (if priority_queue_is_empty Q then Some (None, data)
      else
        (case priority_queue_pop Q of
           None \<Rightarrow> None
         | Some (x, Q1) \<Rightarrow>
             (case is_complete x data of
                (is_goal, data1) \<Rightarrow>
                  if is_goal then Some (Some x, data1)
                  else
                    (case refine [] x data1 of
                       None \<Rightarrow> None
                     | Some (adjacent_nodes, data2) \<Rightarrow>
                         (case push_adjacent_nodes adjacent_nodes Q1 data2 of
                            (Q2, data3) \<Rightarrow> best_first_search_loop Q2 data3)))))"

definition best_first_search :: "decorator \<Rightarrow> analysis_data \<Rightarrow> (decorator option \<times> analysis_data) option" where
  "best_first_search root_d data =
     best_first_search_loop (priority_queue_push priority_queue_create root_d 0) data"

definition analysis_data_init :: "StabilityStatus \<Rightarrow> forest \<Rightarrow> Tier \<Rightarrow> (nat \<Rightarrow> nat) \<Rightarrow> analysis_data" where
  "analysis_data_init st F t clk =
     \<lparr>status = st, data_F = F, start_time = clk 0, data_timeout = timeout st,
      internal_status = DONT_KNOW, data_labels = forest_get_labels_as_array F,
      data_n_labels = forest_get_n_labels F, data_n_trees = forest_get_n_trees F,
      local_labels = [], data_tier = t, clock = clk, clock_calls = 1\<rparr>"

definition forest_hyperrectangle_is_stable ::
  "StabilityStatus \<Rightarrow> forest \<Rightarrow> hyperrectangle \<Rightarrow> Tier \<Rightarrow> (nat \<Rightarrow> nat) \<Rightarrow> StabilityStatus option" where
  "forest_hyperrectangle_is_stable st F x t clk =
     (let has_sample_0 = has_sample st;
          st1 = (if \<not> has_sample_0
                 then st\<lparr>sample_a := hyperrectangle_midpoint x,
                         labels_a := forest_classify F (hyperrectangle_midpoint x)\<rparr>
                 else st);
          start = Decorator (Some x) None None [];
          data = analysis_data_init st1 F t clk
      in (case best_first_search start data of
            None \<Rightarrow> None
          | Some (goal, data1) \<Rightarrow>
              (let st2 = (status data1)\<lparr>result :=
                           (case internal_status data1 of
                              DONT_KNOW \<Rightarrow> STABILITY_TRUE
                            | UNSTABLE \<Rightarrow> STABILITY_FALSE
                            | ABORTED \<Rightarrow> STABILITY_DONT_KNOW)\<rparr>
               in Some (if \<not> has_sample_0 then st2\<lparr>has_sample := False\<rparr> else st2))))"

section \<open>The priority of a decorator\<close>


text \<open>
  A forest of two stumps on two features under the MAX voting scheme: the first tree tests
  \<open>x\<^sub>0 \<le> 1/2\<close>, the second \<open>x\<^sub>1 \<le> 1/2\<close>; the left leaves are for label A, the right leaves
  for label B.  The region is the unit square and the reference sample its centre, with the
  label A.  The decorator \<open>left_half\<close> fixes the left leaf of the first tree on the region
  \<open>[0, 1/2] \<times> [0, 1]\<close>, where the second tree can still reach both leaves.
\<close>

definition split_x0_root :: tree where
  "split_x0_root = Split 1 0 (1 / 2) (Leaf 2 [10, 0]) (Leaf 3 [0, 10])"


definition split_x0_tree :: decision_tree where
  "split_x0_tree =
     \<lparr>root_node = split_x0_root, space_size = 2, tree_labels = [''A'', ''B''], tree_n_labels = 2\<rparr>"








lemma upt_2: "[0..<2] = [0, 1]" "[0..<Suc (Suc 0)] = [0, Suc 0]" "[Suc 0..<2] = [Suc 0]" "[1..<2] = [1]"
  by (simp_all add: upt_rec)









lemmas heap_eval =
  priority_queue_is_empty_def binary_heap_is_empty_def priority_queue_pop_def binary_heap_pop_def
  priority_queue_push_def binary_heap_push_def priority_queue_create_def binary_heap_create_def
  store_node_def sift_up.simps sift_down.simps heap_property_local_def index_of_parent_def
  is_restored_def index_of_left_child_def index_of_right_child_def chose_child_def swap_nodes_def







section \<open>The STABLE verdict of the forest verifier\<close>
















text \<open>
  The verdict \<open>STABILITY_TRUE\<close> is also reached without any gap, when the reference sample
  has two tied labels.  The first tree tests \<open>x\<^sub>0 \<le> 1/2\<close> (A on the left, B on the right),
  the second \<open>x\<^sub>1 \<le> 1/2\<close> (B on the left, A on the right).  The reference sample
  \<open>(1/4, 1/4)\<close> gets one vote for A and one for B.  On the region \<open>[0, 1/2] \<times> [0, 1]\<close> the
  first tree always answers A and the second may answer A or B, so the overapproximated labels
  of the only child are \<open>{A, B}\<close>, equal to the labels of the reference sample: \<open>refine\<close>
  drops the child as robust.  The point \<open>(1/4, 3/4)\<close> of the region gets two votes for A.
\<close>

definition split_x1_swapped_root :: tree where
  "split_x1_swapped_root = Split 4 1 (1 / 2) (Leaf 5 [0, 10]) (Leaf 6 [10, 0])"

definition split_x1_swapped_tree :: decision_tree where
  "split_x1_swapped_tree =
     \<lparr>root_node = split_x1_swapped_root, space_size = 2, tree_labels = [''A'', ''B''], tree_n_labels = 2\<rparr>"

definition tie_forest :: forest where
  "tie_forest = \<lparr>voting_scheme = FOREST_VOTING_MAX, trees = [split_x0_tree, split_x1_swapped_tree]\<rparr>"

definition tie_status :: StabilityStatus where
  "tie_status =
     \<lparr>result = STABILITY_DONT_KNOW, has_sample = True, sample_a = [1 / 4, 1 / 4], sample_b = [0, 0],
      region = [\<lparr>l = 0, u = 0\<rparr>, \<lparr>l = 0, u = 0\<rparr>], labels_a = [''A'', ''B''], timeout = 1\<rparr>"

definition tie_data :: analysis_data where
  "tie_data = analysis_data_init tie_status tie_forest [0, 0] (\<lambda>n. 0)"

definition tie_region :: hyperrectangle where
  "tie_region = [\<lparr>l = 0, u = 1 / 2\<rparr>, \<lparr>l = 0, u = 1\<rparr>]"

definition tie_start :: decorator where
  "tie_start = Decorator (Some tie_region) None None []"

definition tie_point :: "real list" where
  "tie_point = [1 / 4, 3 / 4]"

lemma tie_data_fields:
  "data_n_labels tie_data = 2" "data_n_trees tie_data = 2"
  "data_labels tie_data = [''A'', ''B'']"
  "voting_scheme (data_F tie_data) = FOREST_VOTING_MAX"
  "trees (data_F tie_data) = [split_x0_tree, split_x1_swapped_tree]"
  "labels_a (status tie_data) = [''A'', ''B'']"
  "data_tier tie_data = [0, 0]" "internal_status tie_data = DONT_KNOW"
  "clock tie_data = (\<lambda>n. 0)" "start_time tie_data = 0" "data_timeout tie_data = 1"
  by (simp_all add: tie_data_def analysis_data_init_def tie_forest_def tie_status_def
      forest_get_n_labels_def forest_get_labels_as_array_def forest_get_n_trees_def
      split_x0_tree_def)

lemma tie_reachable_leaves:
  "reachable_leaves split_x1_swapped_tree tie_region
   = [NodeAt (Leaf 6 [10, 0]) [(RightSide, split_x1_swapped_root)],
      NodeAt (Leaf 5 [0, 10]) [(LeftSide, split_x1_swapped_root)]]"
  by (simp add: reachable_leaves_def decision_tree_get_root_def push_children_def tie_region_def
      split_x1_swapped_tree_def split_x1_swapped_root_def Let_def)

lemma tie_child_labels:
  assumes "data_n_labels data = 2" and "data_n_trees data = 2"
    and "voting_scheme (data_F data) = FOREST_VOTING_MAX" and "data_labels data = [''A'', ''B'']"
    and "trees (data_F data) = [split_x0_tree, split_x1_swapped_tree]"
  shows "decorator_compute_labels
           (Decorator (Some tie_region) (Some (NodeAt (Leaf ident [10, 0]) up))
              (Some (Decorator xo None None lb)) []) data
         = [''A'', ''B'']"
proof -
  let ?h = "Decorator (Some tie_region) (Some (NodeAt (Leaf ident [10, 0]) up))
              (Some (Decorator xo None None lb)) []"
  have c: "decorator_score_concrete ?h data = [\<lparr>l = 1, u = 1\<rparr>, \<lparr>l = 0, u = 0\<rparr>]"
    using assms
    by (simp add: decorator_score_concrete_def decorator_score_concrete_max_def leaf_max_score_def
        upt_2)
  have m: "decorator_score_sound_max [\<lparr>l = 1, u = 1\<rparr>, \<lparr>l = 0, u = 0\<rparr>] ?h split_x1_swapped_tree data
             = [\<lparr>l = 1, u = 2\<rparr>, \<lparr>l = 0, u = 1\<rparr>]"
    using assms
    by (simp add: decorator_score_sound_max_def tie_reachable_leaves upt_2 leaf_max_score_def Let_def)
  have s: "decorator_score_sound [\<lparr>l = 1, u = 1\<rparr>, \<lparr>l = 0, u = 0\<rparr>] ?h data
             = [\<lparr>l = 1, u = 2\<rparr>, \<lparr>l = 0, u = 1\<rparr>]"
    using assms by (simp add: decorator_score_sound_def upt_2 m)
  show ?thesis
    using assms
    by (simp add: decorator_compute_labels_def decorator_score_overapproximate_def c s
        scores_to_labels_def set_add_element_def set_has_element_def interval_is_lt_def upt_2)
qed

lemma tie_refine:
  assumes "data_n_labels data = 2" and "data_n_trees data = 2"
    and "voting_scheme (data_F data) = FOREST_VOTING_MAX" and "data_labels data = [''A'', ''B'']"
    and "trees (data_F data) = [split_x0_tree, split_x1_swapped_tree]"
    and "labels_a (status data) = [''A'', ''B'']" and "data_tier data = [0, 0]"
  shows "refine [] tie_start data = Some ([], data)"
  unfolding refine_def
  apply (simp add: tie_start_def assms forest_get_n_trees_def Let_def)
  apply (subst refine_loop.simps)
  apply (simp add: heap_eval Let_def decision_tree_get_root_def split_x0_tree_def split_x0_root_def
      assms adjust_tier_def interval_radius_def tie_region_def)
  apply (subst refine_loop.simps)
  apply (simp add: heap_eval Let_def assms tie_child_labels tie_region_def [symmetric]
      set_is_disjoint_def set_is_equal_def set_is_subset_def set_has_element_def)
  apply (subst refine_loop.simps)
  apply (simp add: heap_eval)
  done

lemma tie_best_first_search:
  "best_first_search tie_start tie_data = Some (None, tie_data\<lparr>clock_calls := 2\<rparr>)"
proof -
  have r: "refine [] tie_start (tie_data\<lparr>clock_calls := 2\<rparr>) = Some ([], tie_data\<lparr>clock_calls := 2\<rparr>)"
    by (rule tie_refine) (simp_all add: tie_data_fields)
  have c: "is_complete tie_start tie_data = (False, tie_data\<lparr>clock_calls := 2\<rparr>)"
    by (simp add: is_complete_def tie_data_fields Let_def tie_data_def analysis_data_init_def)
  show ?thesis
    unfolding best_first_search_def
    apply (subst best_first_search_loop.simps)
    apply (simp add: heap_eval Let_def c r push_adjacent_nodes_def)
    apply (subst best_first_search_loop.simps)
    apply (simp add: heap_eval)
    done
qed

lemma tie_forest_classify:
  "forest_classify tie_forest [1 / 4, 1 / 4] = [''A'', ''B'']"
  "forest_classify tie_forest tie_point = [''A'']"
  by (simp_all add: tie_point_def forest_classify_def forest_compute_decision_function_def
      decision_function_max_def tie_forest_def split_x0_tree_def split_x0_root_def
      split_x1_swapped_tree_def split_x1_swapped_root_def forest_get_n_labels_def
      forest_get_labels_as_array_def decision_tree_compute_decision_function_def
      decision_tree_get_root_def labels_of_max_score_def leaf_n_samples_def upt_2 Let_def
      set_add_element_def set_has_element_def)

lemma forest_stable_verdict_misses_tied_labels:
  "map_option result (forest_hyperrectangle_is_stable tie_status tie_forest tie_region [0, 0] (\<lambda>n. 0))
     = Some STABILITY_TRUE \<and>
   forest_classify tie_forest (sample_a tie_status) = labels_a tie_status \<and>
   in_hyperrectangle tie_point tie_region \<and>
   forest_classify tie_forest tie_point = [''A''] \<and>
   forest_classify tie_forest tie_point \<noteq> labels_a tie_status"
proof -
  have s: "has_sample tie_status" "sample_a tie_status = [1 / 4, 1 / 4]"
    "labels_a tie_status = [''A'', ''B'']"
    by (simp_all add: tie_status_def)
  have "map_option result (forest_hyperrectangle_is_stable tie_status tie_forest tie_region [0, 0] (\<lambda>n. 0))
     = Some STABILITY_TRUE"
    by (simp add: forest_hyperrectangle_is_stable_def s tie_data_def [symmetric]
        tie_start_def [symmetric] tie_best_first_search tie_data_fields Let_def)
  moreover have "in_hyperrectangle tie_point tie_region"
    by (simp add: tie_point_def tie_region_def in_hyperrectangle_def in_interval_def)
  ultimately show ?thesis
    by (simp add: s tie_forest_classify)
qed

end
